theory Spec2Isabelle
  imports Complex_Main "HOL-Library.Product_Lexorder"
begin

section \<open>Floating-point values as the numeric libraries treat them\<close>

text \<open>
  The services compute with numpy / pandas / torch floats.  Division by zero and
  invalid operations do not raise there: they yield infinities and NaN, and the code
  under study relies on that (rows with NaN are dropped, comparisons with NaN are
  false).  The model keeps these special values and computes the finite part with
  exact reals: rounding, overflow and the sign of zero are not modelled.
\<close>

datatype pyfloat = Fin real | PInf | NInf | NaN

instantiation pyfloat :: "{zero, one, plus, uminus, minus, times, divide, abs}"
begin

definition zero_pyfloat :: pyfloat where
  "zero_pyfloat = Fin 0"

definition one_pyfloat :: pyfloat where
  "one_pyfloat = Fin 1"

fun plus_pyfloat :: "pyfloat \<Rightarrow> pyfloat \<Rightarrow> pyfloat" where
  "plus_pyfloat (Fin a) (Fin b) = Fin (a + b)"
| "plus_pyfloat NaN y = NaN"
| "plus_pyfloat x NaN = NaN"
| "plus_pyfloat PInf NInf = NaN"
| "plus_pyfloat NInf PInf = NaN"
| "plus_pyfloat PInf y = PInf"
| "plus_pyfloat x PInf = PInf"
| "plus_pyfloat NInf y = NInf"
| "plus_pyfloat x NInf = NInf"

fun uminus_pyfloat :: "pyfloat \<Rightarrow> pyfloat" where
  "uminus_pyfloat (Fin a) = Fin (- a)"
| "uminus_pyfloat PInf = NInf"
| "uminus_pyfloat NInf = PInf"
| "uminus_pyfloat NaN = NaN"

definition minus_pyfloat :: "pyfloat \<Rightarrow> pyfloat \<Rightarrow> pyfloat" where
  "minus_pyfloat (x::pyfloat) (y::pyfloat) = (x + (- y) :: pyfloat)"

fun times_pyfloat :: "pyfloat \<Rightarrow> pyfloat \<Rightarrow> pyfloat" where
  "times_pyfloat (Fin a) (Fin b) = Fin (a * b)"
| "times_pyfloat NaN y = NaN"
| "times_pyfloat x NaN = NaN"
| "times_pyfloat (Fin a) PInf = (if a = 0 then NaN else if 0 < a then PInf else NInf)"
| "times_pyfloat (Fin a) NInf = (if a = 0 then NaN else if 0 < a then NInf else PInf)"
| "times_pyfloat PInf (Fin b) = (if b = 0 then NaN else if 0 < b then PInf else NInf)"
| "times_pyfloat NInf (Fin b) = (if b = 0 then NaN else if 0 < b then NInf else PInf)"
| "times_pyfloat PInf PInf = PInf"
| "times_pyfloat NInf NInf = PInf"
| "times_pyfloat PInf NInf = NInf"
| "times_pyfloat NInf PInf = NInf"

fun divide_pyfloat :: "pyfloat \<Rightarrow> pyfloat \<Rightarrow> pyfloat" where
  "divide_pyfloat (Fin a) (Fin b) =
     (if b = 0 then (if a = 0 then NaN else if 0 < a then PInf else NInf)
      else Fin (a / b))"
| "divide_pyfloat NaN y = NaN"
| "divide_pyfloat x NaN = NaN"
| "divide_pyfloat (Fin a) PInf = Fin 0"
| "divide_pyfloat (Fin a) NInf = Fin 0"
| "divide_pyfloat PInf (Fin b) = (if 0 \<le> b then PInf else NInf)"
| "divide_pyfloat NInf (Fin b) = (if 0 \<le> b then NInf else PInf)"
| "divide_pyfloat PInf PInf = NaN"
| "divide_pyfloat PInf NInf = NaN"
| "divide_pyfloat NInf PInf = NaN"
| "divide_pyfloat NInf NInf = NaN"

fun abs_pyfloat :: "pyfloat \<Rightarrow> pyfloat" where
  "abs_pyfloat (Fin a) = Fin \<bar>a\<bar>"
| "abs_pyfloat PInf = PInf"
| "abs_pyfloat NInf = PInf"
| "abs_pyfloat NaN = NaN"

instance ..

end

instantiation pyfloat :: inverse
begin

definition inverse_pyfloat :: "pyfloat \<Rightarrow> pyfloat" where
  "inverse_pyfloat x = divide (Fin 1) x"

instance ..

end

lemma pyfloat_add_assoc: "(x + y) + z = x + (y + z)" for x y z :: pyfloat
  by (cases x; cases y; cases z; simp)

lemma pyfloat_add_commute: "x + y = y + x" for x y :: pyfloat
  by (cases x; cases y; simp)

lemma pyfloat_add_zero: "0 + x = x" for x :: pyfloat
  by (cases x; simp add: zero_pyfloat_def)

instance pyfloat :: comm_monoid_add
  by standard (rule pyfloat_add_assoc pyfloat_add_commute pyfloat_add_zero)+

instance pyfloat :: numeral ..

text \<open>Comparisons: every comparison with NaN is false.\<close>

fun flt :: "pyfloat \<Rightarrow> pyfloat \<Rightarrow> bool" where
  "flt (Fin a) (Fin b) = (a < b)"
| "flt NaN y = False"
| "flt x NaN = False"
| "flt x NInf = False"
| "flt PInf y = False"
| "flt NInf y = True"
| "flt x PInf = True"

definition fgt :: "pyfloat \<Rightarrow> pyfloat \<Rightarrow> bool" where
  "fgt x y = flt y x"

fun isnan :: "pyfloat \<Rightarrow> bool" where
  "isnan NaN = True"
| "isnan x = False"

fun isfinite :: "pyfloat \<Rightarrow> bool" where
  "isfinite (Fin a) = True"
| "isfinite x = False"

fun np_sqrt :: "pyfloat \<Rightarrow> pyfloat" where
  "np_sqrt (Fin a) = (if a < 0 then NaN else Fin (sqrt a))"
| "np_sqrt PInf = PInf"
| "np_sqrt NInf = NaN"
| "np_sqrt NaN = NaN"

lemma numeral_pyfloat: "(numeral n :: pyfloat) = Fin (numeral n)"
proof (induction n)
  case One
  show ?case by (simp add: one_pyfloat_def)
next
  case (Bit0 n)
  have "(numeral (Num.Bit0 n) :: pyfloat) = numeral n + numeral n"
    by (rule numeral_Bit0)
  also have "\<dots> = Fin (numeral n) + Fin (numeral n)"
    by (simp only: Bit0.IH)
  also have "\<dots> = Fin (numeral (Num.Bit0 n))"
    by (simp only: plus_pyfloat.simps numeral_Bit0)
  finally show ?case .
next
  case (Bit1 n)
  have "(numeral (Num.Bit1 n) :: pyfloat) = numeral n + numeral n + 1"
    by (rule numeral_Bit1)
  also have "\<dots> = Fin (numeral n) + Fin (numeral n) + Fin 1"
    by (simp only: Bit1.IH one_pyfloat_def)
  also have "\<dots> = Fin (numeral (Num.Bit1 n))"
    by (simp only: plus_pyfloat.simps numeral_Bit1)
  finally show ?case .
qed

lemma sum_list_Fin: "sum_list (map Fin xs) = Fin (sum_list xs)"
  by (induction xs) (simp_all add: zero_pyfloat_def)

subsection \<open>Conversion to single precision\<close>

text \<open>
  \<open>torch.FloatTensor(array)\<close> copies a double-precision array into 32-bit floats: every
  finite entry is rounded to the nearest number with a 24-bit significand, ties to even;
  below \<open>2\<^sup>-\<^sup>1\<^sup>2\<^sup>6\<close> the spacing stays \<open>2\<^sup>-\<^sup>1\<^sup>4\<^sup>9\<close> (subnormals), and a result of magnitude
  \<open>2\<^sup>1\<^sup>2\<^sup>8\<close> or more is an infinity.  NaN and the infinities are kept.
\<close>

definition round_half_even_real :: "real \<Rightarrow> int" where
  "round_half_even_real x =
     (let f = \<lfloor>x\<rfloor>; r = x - of_int f
      in if r < 1 / 2 then f
         else if 1 / 2 < r then f + 1
         else if even f then f else f + 1)"

definition float32_of_real :: "real \<Rightarrow> pyfloat" where
  "float32_of_real x =
     (if x = 0 then Fin 0
      else let e = max \<lfloor>log 2 \<bar>x\<bar>\<rfloor> (- 126);
               ulp = 2 powr of_int (e - 23);
               y = of_int (round_half_even_real (x / ulp)) * ulp
           in if 2 powr 128 \<le> \<bar>y\<bar> then (if 0 < x then PInf else NInf) else Fin y)"

definition to_float32 :: "pyfloat \<Rightarrow> pyfloat" where
  "to_float32 v = (case v of Fin x \<Rightarrow> float32_of_real x | _ \<Rightarrow> v)"

section \<open>Exceptions as values\<close>

text \<open>
  Every \<open>raise\<close> of the Python code, and of the library calls it makes, is a left
  value of the result type \<open>error + 'a\<close>.
\<close>

datatype error =
    ValueError string
  | TypeError string
  | KeyError string
  | AttributeError string
  | FileNotFoundError string
  | ZeroDivisionError
  | IndexError
  | RuntimeError string

definition bind_result :: "error + 'a \<Rightarrow> ('a \<Rightarrow> error + 'b) \<Rightarrow> error + 'b" where
  "bind_result m f = (case m of Inl e \<Rightarrow> Inl e | Inr v \<Rightarrow> f v)"

fun map_result :: "('a \<Rightarrow> error + 'b) \<Rightarrow> 'a list \<Rightarrow> error + 'b list" where
  "map_result f [] = Inr []"
| "map_result f (x # xs) =
     (case f x of
        Inl e \<Rightarrow> Inl e
      | Inr v \<Rightarrow> (case map_result f xs of Inl e \<Rightarrow> Inl e | Inr vs \<Rightarrow> Inr (v # vs)))"

section \<open>Ensemble combination (services/ensemble.py)\<close>

subsection \<open>The numpy reductions the service calls\<close>

definition np_mean :: "pyfloat list \<Rightarrow> pyfloat" where
  "np_mean xs = sum_list xs / Fin (real (length xs))"

definition np_std :: "pyfloat list \<Rightarrow> pyfloat" where
  "np_std xs =
     (let m = np_mean xs
      in np_sqrt (np_mean (map (\<lambda>x. \<bar>x - m\<bar> * \<bar>x - m\<bar>) xs)))"

text \<open>
  \<open>np.average(a, weights=w)\<close>: the weights' sum is tested against zero first and
  \<open>ZeroDivisionError\<close> is raised there; differing shapes are a \<open>TypeError\<close>.
\<close>

definition np_average :: "pyfloat list \<Rightarrow> pyfloat list \<Rightarrow> error + pyfloat" where
  "np_average a w =
     (if length a \<noteq> length w
        then Inl (TypeError ''Axis must be specified when shapes of a and weights differ.'')
      else let scl = sum_list w
           in if scl = Fin 0 then Inl ZeroDivisionError
              else Inr (sum_list (map2 (*) a w) / scl))"

text \<open>Sorting key: the order numpy sorts floats in (NaN last).\<close>

fun fkey :: "pyfloat \<Rightarrow> int \<times> real" where
  "fkey NInf = (-1, 0)"
| "fkey (Fin a) = (0, a)"
| "fkey PInf = (1, 0)"
| "fkey NaN = (2, 0)"

definition np_median :: "pyfloat list \<Rightarrow> pyfloat" where
  "np_median xs =
     (if xs = [] \<or> list_ex isnan xs then NaN
      else let s = sort_key fkey xs; n = length s
           in if even n then (s ! (n div 2 - 1) + s ! (n div 2)) / Fin 2
              else s ! (n div 2))"

subsection \<open>Artifacts on disk and per-model inference\<close>

text \<open>
  Of \<open>metadata.json\<close> the combiner itself reads one entry,
  \<open>metadata["metrics"]["directional_accuracy"]\<close>, which may be absent.
\<close>

record metadata =
  directional_accuracy :: "pyfloat option"

record model_info =
  mi_type :: string
  mi_path :: string
  mi_metadata :: metadata

text \<open>The directory \<open>model_cache_dir / symbol\<close>, when it exists.\<close>

record model_dir =
  metadata_json :: "metadata option"
  lstm_model_pt :: bool
  gru_model_pt :: bool

type_synonym model_cache = "string \<Rightarrow> model_dir option"

record prediction =
  model_type :: string
  predicted_price :: pyfloat
  accuracy :: pyfloat

record ensemble_result =
  ensemble_strategy :: string
  ensemble_predicted_price :: pyfloat
  confidence :: pyfloat
  models_used :: nat
  votes :: "(nat \<times> nat) option"
  individual_predictions :: "prediction list"

definition load_available_models :: "model_cache \<Rightarrow> string \<Rightarrow> model_info list" where
  "load_available_models cache symbol =
     (case cache symbol of
        None \<Rightarrow> []
      | Some d \<Rightarrow>
          (case metadata_json d of
             None \<Rightarrow> []
           | Some md \<Rightarrow>
               (if lstm_model_pt d
                  then [\<lparr>mi_type = ''LSTM'', mi_path = symbol @ ''/lstm_model.pt'',
                         mi_metadata = md\<rparr>]
                  else [])
               @ (if gru_model_pt d
                    then [\<lparr>mi_type = ''GRU'', mi_path = symbol @ ''/gru_model.pt'',
                           mi_metadata = md\<rparr>]
                    else [])))"

definition accuracy_or_default :: "metadata \<Rightarrow> pyfloat" where
  "accuracy_or_default md =
     (case directional_accuracy md of None \<Rightarrow> Fin (1 / 2) | Some a \<Rightarrow> a)"

text \<open>
  \<open>_get_model_prediction\<close> rebuilds the network, loads weights and scalers, fetches
  candles and runs the forward pass; all of that is external and may raise.  It is the
  parameter \<open>infer\<close>: the denormalised price, or the exception.
\<close>

type_synonym inference = "model_info \<Rightarrow> string \<Rightarrow> string \<Rightarrow> error + pyfloat"

definition get_model_prediction ::
  "inference \<Rightarrow> model_info \<Rightarrow> string \<Rightarrow> string \<Rightarrow> error + prediction" where
  "get_model_prediction infer mi symbol horizon =
     (case infer mi symbol horizon of
        Inl e \<Rightarrow> Inl e
      | Inr price \<Rightarrow>
          Inr \<lparr>model_type = mi_type mi, predicted_price = price,
               accuracy = accuracy_or_default (mi_metadata mi)\<rparr>)"

subsection \<open>Combination strategies\<close>

text \<open>\<open>weights = weights / weights.sum()\<close>, elementwise.\<close>

definition normalize_weights :: "pyfloat list \<Rightarrow> pyfloat list" where
  "normalize_weights weights0 = map (\<lambda>w. w / sum_list weights0) weights0"

definition weighted_average :: "prediction list \<Rightarrow> pyfloat list \<Rightarrow> error + ensemble_result" where
  "weighted_average predictions weights0 =
     (let weights = normalize_weights weights0;
          predicted_prices = map predicted_price predictions
      in case np_average predicted_prices weights of
           Inl e \<Rightarrow> Inl e
         | Inr combined_price \<Rightarrow>
             (let std = np_std predicted_prices;
                  conf = (if fgt combined_price (Fin 0)
                          then Fin 1 / (Fin 1 + std / combined_price)
                          else Fin (1 / 2))
              in Inr \<lparr>ensemble_strategy = ''WEIGHTED_AVERAGE'',
                      ensemble_predicted_price = combined_price,
                      confidence = conf,
                      models_used = length predictions,
                      votes = None,
                      individual_predictions = predictions\<rparr>))"

definition voting :: "prediction list \<Rightarrow> error + ensemble_result" where
  "voting predictions =
     (let predicted_prices = map predicted_price predictions;
          median_price = np_median predicted_prices;
          votes_up = length (filter (\<lambda>p. fgt p median_price) predicted_prices);
          votes_down = length predicted_prices - votes_up
      in if length predictions = 0 then Inl ZeroDivisionError
         else Inr \<lparr>ensemble_strategy = ''VOTING'',
                   ensemble_predicted_price = median_price,
                   confidence = Fin (real (max votes_up votes_down) / real (length predictions)),
                   models_used = length predictions,
                   votes = Some (votes_up, votes_down),
                   individual_predictions = predictions\<rparr>)"

subsection \<open>\<open>EnsembleService.predict\<close>\<close>

text \<open>
  The loop over the loaded models: a prediction and its weight are appended together;
  any exception of the inference is caught and the model skipped.
\<close>

fun collect_predictions ::
  "inference \<Rightarrow> string \<Rightarrow> string \<Rightarrow> model_info list
     \<Rightarrow> prediction list \<times> pyfloat list \<Rightarrow> prediction list \<times> pyfloat list" where
  "collect_predictions infer symbol horizon [] acc = acc"
| "collect_predictions infer symbol horizon (mi # mis) (predictions, weights) =
     (case get_model_prediction infer mi symbol horizon of
        Inl e \<Rightarrow> collect_predictions infer symbol horizon mis (predictions, weights)
      | Inr pred \<Rightarrow>
          collect_predictions infer symbol horizon mis
            (predictions @ [pred], weights @ [accuracy_or_default (mi_metadata mi)]))"

definition predict ::
  "model_cache \<Rightarrow> inference \<Rightarrow> string \<Rightarrow> string \<Rightarrow> string \<Rightarrow> error + ensemble_result" where
  "predict cache infer symbol horizon strategy =
     (let models = load_available_models cache symbol
      in if length models = 0 then Inl (ValueError (''No models found for '' @ symbol))
         else
           (case collect_predictions infer symbol horizon models ([], []) of
              (predictions, weights) \<Rightarrow>
                if length predictions = 0 then Inl (ValueError ''No valid predictions obtained'')
                else if strategy = ''WEIGHTED_AVERAGE'' then weighted_average predictions weights
                else if strategy = ''VOTING'' then voting predictions
                else weighted_average predictions weights))"

text \<open>
  For stating the partial-failure contract: the predictions of the models whose
  inference did not raise, in loading order.
\<close>

definition surviving_predictions ::
  "inference \<Rightarrow> string \<Rightarrow> string \<Rightarrow> model_info list \<Rightarrow> prediction list" where
  "surviving_predictions infer symbol horizon models =
     List.map_filter
       (\<lambda>mi. case get_model_prediction infer mi symbol horizon of
               Inl e \<Rightarrow> None
             | Inr pred \<Rightarrow> Some pred)
       models"

section \<open>Supervised windows (features/normalization.py, \<open>create_sequences\<close>)\<close>

text \<open>
  A two-dimensional array is the list of its rows.  \<open>data[r, c]\<close> raises
  \<open>IndexError\<close> outside the array; a negative column counts from the end.
\<close>

type_synonym 'a ndarray2 = "'a list list"

definition normalize_index :: "int \<Rightarrow> nat \<Rightarrow> error + nat" where
  "normalize_index c n =
     (let j = (if c < 0 then c + int n else c)
      in if 0 \<le> j \<and> j < int n then Inr (nat j) else Inl IndexError)"

definition index_2d :: "'a ndarray2 \<Rightarrow> nat \<Rightarrow> int \<Rightarrow> error + 'a" where
  "index_2d data r c =
     (if length data \<le> r then Inl IndexError
      else case normalize_index c (length (data ! r)) of
             Inl e \<Rightarrow> Inl e
           | Inr j \<Rightarrow> Inr (data ! r ! j))"

text \<open>
  \<open>data[a:b, c]\<close>: the row slice is clipped to the array, the column is checked
  against the array's column count even when the slice is empty.
\<close>

definition slice_column :: "'a ndarray2 \<Rightarrow> nat \<Rightarrow> nat \<Rightarrow> int \<Rightarrow> error + 'a list" where
  "slice_column data a b c =
     (case normalize_index c (case data of [] \<Rightarrow> 0 | row # _ \<Rightarrow> length row) of
        Inl e \<Rightarrow> Inl e
      | Inr j \<Rightarrow> Inr (map (\<lambda>row. row ! j) (take (b - a) (drop a data))))"

text \<open>A target is a scalar for \<open>forecast_horizon = 1\<close> and a vector otherwise.\<close>

datatype 'a target = Scalar 'a | Vector "'a list"

fun create_sequences_loop ::
  "'a ndarray2 \<Rightarrow> nat \<Rightarrow> int \<Rightarrow> nat \<Rightarrow> nat list
     \<Rightarrow> 'a ndarray2 list \<times> 'a target list \<Rightarrow> error + 'a ndarray2 list \<times> 'a target list" where
  "create_sequences_loop data sequence_length target_column forecast_horizon [] (X, y) =
     Inr (X, y)"
| "create_sequences_loop data sequence_length target_column forecast_horizon (i # rest) (X, y) =
     (let seq = take sequence_length (drop i data)
      in case (if forecast_horizon = 1
               then map_sum id Scalar (index_2d data (i + sequence_length) target_column)
               else map_sum id Vector
                      (slice_column data (i + sequence_length)
                         (i + sequence_length + forecast_horizon) target_column)) of
           Inl e \<Rightarrow> Inl e
         | Inr tgt \<Rightarrow>
             create_sequences_loop data sequence_length target_column forecast_horizon rest
               (X @ [seq], y @ [tgt]))"

text \<open>
  The loop runs over \<open>range(len(data) - sequence_length - forecast_horizon + 1)\<close>, which
  is empty when the bound is not positive.  The lengths are natural numbers here: the
  request schema admits sequence lengths 10..200 only and the caller passes horizon 1.
  The collected windows and targets are returned as \<open>torch.FloatTensor\<close>s: every entry
  is converted to single precision.
\<close>

definition create_sequences ::
  "pyfloat ndarray2 \<Rightarrow> nat \<Rightarrow> int \<Rightarrow> nat
     \<Rightarrow> error + pyfloat ndarray2 list \<times> pyfloat target list" where
  "create_sequences data sequence_length target_column forecast_horizon =
     bind_result
       (create_sequences_loop data sequence_length target_column forecast_horizon
          [0 ..< nat (int (length data) - int sequence_length - int forecast_horizon + 1)]
          ([], []))
       (\<lambda>(X, y). Inr (map (map (map to_float32)) X, map (map_target to_float32) y))"

section \<open>Scalers (features/normalization.py, \<open>Normalizer\<close>)\<close>

subsection \<open>The scikit-learn scalers the class wraps\<close>

text \<open>
  The three scaler classes are library code.  The model keeps the attributes \<open>fit\<close>
  creates on the scaler object (each absent before), the input validation that
  \<open>fit\<close>, \<open>transform\<close> and \<open>inverse_transform\<close> perform (an empty array, a
  differing column count and infinite entries are \<open>ValueError\<close>s; NaN entries are
  allowed and skipped by the statistics), and numpy's broadcasting of a parameter vector
  along the rows.  Arrays are rectangular.
\<close>

datatype scaler_class = StandardScaler | MinMaxScaler | RobustScaler

record sk_scaler =
  scaler_class :: scaler_class
  mean_attr :: "pyfloat list option"
  var_attr :: "pyfloat list option"
  scale_attr :: "pyfloat list option"
  center_attr :: "pyfloat list option"
  min_attr :: "pyfloat list option"
  data_min_attr :: "pyfloat list option"
  data_max_attr :: "pyfloat list option"
  data_range_attr :: "pyfloat list option"
  n_features_in_attr :: "nat option"
  n_samples_seen_attr :: "nat option"

definition new_scaler :: "scaler_class \<Rightarrow> sk_scaler" where
  "new_scaler c =
     \<lparr>scaler_class = c, mean_attr = None, var_attr = None, scale_attr = None,
      center_attr = None, min_attr = None, data_min_attr = None, data_max_attr = None,
      data_range_attr = None, n_features_in_attr = None, n_samples_seen_attr = None\<rparr>"

definition ncols :: "'a ndarray2 \<Rightarrow> nat" where
  "ncols X = (case X of [] \<Rightarrow> 0 | row # _ \<Rightarrow> length row)"

definition column :: "'a ndarray2 \<Rightarrow> nat \<Rightarrow> 'a list" where
  "column X j = map (\<lambda>row. row ! j) X"

definition columns :: "'a ndarray2 \<Rightarrow> 'a list list" where
  "columns X = map (column X) [0 ..< ncols X]"

fun isinf :: "pyfloat \<Rightarrow> bool" where
  "isinf PInf = True"
| "isinf NInf = True"
| "isinf x = False"

definition check_array :: "pyfloat ndarray2 \<Rightarrow> error + unit" where
  "check_array X =
     (if length X = 0 then Inl (ValueError ''Found array with 0 sample(s)'')
      else if ncols X = 0 then Inl (ValueError ''Found array with 0 feature(s)'')
      else if list_ex (list_ex isinf) X then Inl (ValueError ''Input X contains infinity'')
      else Inr ())"

definition attr :: "string \<Rightarrow> 'a option \<Rightarrow> error + 'a" where
  "attr name a = (case a of None \<Rightarrow> Inl (AttributeError name) | Some v \<Rightarrow> Inr v)"

text \<open>NaN-skipping column statistics.\<close>

definition dropnan :: "pyfloat list \<Rightarrow> pyfloat list" where
  "dropnan xs = filter (\<lambda>x. \<not> isnan x) xs"

definition nanmean :: "pyfloat list \<Rightarrow> pyfloat" where
  "nanmean xs = (let v = dropnan xs in if v = [] then NaN else np_mean v)"

definition nanvar :: "pyfloat list \<Rightarrow> pyfloat" where
  "nanvar xs =
     (let v = dropnan xs; m = nanmean xs
      in if v = [] then NaN else np_mean (map (\<lambda>x. (x - m) * (x - m)) v))"

definition fmin :: "pyfloat \<Rightarrow> pyfloat \<Rightarrow> pyfloat" where
  "fmin a b = (if flt b a then b else a)"

definition fmax :: "pyfloat \<Rightarrow> pyfloat \<Rightarrow> pyfloat" where
  "fmax a b = (if flt a b then b else a)"

definition nanmin :: "pyfloat list \<Rightarrow> pyfloat" where
  "nanmin xs = (case dropnan xs of [] \<Rightarrow> NaN | v # vs \<Rightarrow> foldl fmin v vs)"

definition nanmax :: "pyfloat list \<Rightarrow> pyfloat" where
  "nanmax xs = (case dropnan xs of [] \<Rightarrow> NaN | v # vs \<Rightarrow> foldl fmax v vs)"

definition nanmedian :: "pyfloat list \<Rightarrow> pyfloat" where
  "nanmedian xs =
     (let s = sort_key fkey (dropnan xs); n = length s
      in if n = 0 then NaN
         else if even n then (s ! (n div 2 - 1) + s ! (n div 2)) / Fin 2
         else s ! (n div 2))"

text \<open>
  \<open>np.nanpercentile(col, q)\<close> with the default linear interpolation between the two
  order statistics around the virtual index \<open>(n - 1) q / 100\<close>.
\<close>

definition nanpercentile :: "pyfloat list \<Rightarrow> real \<Rightarrow> pyfloat" where
  "nanpercentile xs q =
     (let s = sort_key fkey (dropnan xs); n = length s
      in if n = 0 then NaN
         else let h = real (n - 1) * q / 100;
                  lo = nat \<lfloor>h\<rfloor>;
                  hi = min (lo + 1) (n - 1)
              in s ! lo + (s ! hi - s ! lo) * Fin (h - real lo))"

definition handle_zeros_in_scale :: "pyfloat \<Rightarrow> pyfloat" where
  "handle_zeros_in_scale s = (if s = Fin 0 then Fin 1 else s)"

definition sk_fit :: "sk_scaler \<Rightarrow> pyfloat ndarray2 \<Rightarrow> error + sk_scaler" where
  "sk_fit sc X =
     bind_result (check_array X) (\<lambda>_.
       let cols = columns X
       in Inr (case scaler_class sc of
            StandardScaler \<Rightarrow>
              sc\<lparr>mean_attr := Some (map nanmean cols),
                 var_attr := Some (map nanvar cols),
                 scale_attr := Some (map (\<lambda>c. handle_zeros_in_scale (np_sqrt (nanvar c))) cols),
                 n_features_in_attr := Some (ncols X),
                 n_samples_seen_attr := Some (length X)\<rparr>
          | MinMaxScaler \<Rightarrow>
              (let data_min = map nanmin cols;
                   data_max = map nanmax cols;
                   data_range = map2 (-) data_max data_min;
                   scale = map (\<lambda>r. Fin 1 / handle_zeros_in_scale r) data_range
               in sc\<lparr>min_attr := Some (map2 (\<lambda>mn s. Fin 0 - mn * s) data_min scale),
                     scale_attr := Some scale,
                     data_min_attr := Some data_min,
                     data_max_attr := Some data_max,
                     data_range_attr := Some data_range,
                     n_features_in_attr := Some (ncols X),
                     n_samples_seen_attr := Some (length X)\<rparr>)
          | RobustScaler \<Rightarrow>
              sc\<lparr>center_attr := Some (map nanmedian cols),
                 scale_attr :=
                   Some (map (\<lambda>c. handle_zeros_in_scale
                                     (nanpercentile c 75 - nanpercentile c 25)) cols),
                 n_features_in_attr := Some (ncols X)\<rparr>))"

text \<open>
  An in-place operation of the rows with a parameter vector: numpy broadcasts a vector
  of the row's length, or of length one, and raises otherwise.
\<close>

definition broadcast_rows ::
  "(pyfloat \<Rightarrow> pyfloat \<Rightarrow> pyfloat) \<Rightarrow> pyfloat ndarray2 \<Rightarrow> pyfloat list \<Rightarrow> error + pyfloat ndarray2" where
  "broadcast_rows f X ps =
     (if length ps = ncols X then Inr (map (\<lambda>row. map2 f row ps) X)
      else if length ps = 1 then Inr (map (map (\<lambda>x. f x (hd ps))) X)
      else Inl (ValueError ''operands could not be broadcast together''))"

definition check_n_features :: "sk_scaler \<Rightarrow> pyfloat ndarray2 \<Rightarrow> error + unit" where
  "check_n_features sc X =
     bind_result (attr ''n_features_in_'' (n_features_in_attr sc)) (\<lambda>n.
       if ncols X = n then Inr ()
       else Inl (ValueError ''X has a different number of features than the scaler expects''))"

definition sk_transform :: "sk_scaler \<Rightarrow> pyfloat ndarray2 \<Rightarrow> error + pyfloat ndarray2" where
  "sk_transform sc X =
     bind_result (check_array X) (\<lambda>_.
     bind_result (check_n_features sc X) (\<lambda>_.
       case scaler_class sc of
         StandardScaler \<Rightarrow>
           bind_result (attr ''mean_'' (mean_attr sc)) (\<lambda>mean.
           bind_result (broadcast_rows (-) X mean) (\<lambda>X1.
           bind_result (attr ''scale_'' (scale_attr sc)) (\<lambda>scale.
             broadcast_rows (/) X1 scale)))
       | MinMaxScaler \<Rightarrow>
           bind_result (attr ''scale_'' (scale_attr sc)) (\<lambda>scale.
           bind_result (broadcast_rows (*) X scale) (\<lambda>X1.
           bind_result (attr ''min_'' (min_attr sc)) (\<lambda>mn.
             broadcast_rows (+) X1 mn)))
       | RobustScaler \<Rightarrow>
           bind_result (attr ''center_'' (center_attr sc)) (\<lambda>center.
           bind_result (broadcast_rows (-) X center) (\<lambda>X1.
           bind_result (attr ''scale_'' (scale_attr sc)) (\<lambda>scale.
             broadcast_rows (/) X1 scale)))))"

definition sk_inverse_transform :: "sk_scaler \<Rightarrow> pyfloat ndarray2 \<Rightarrow> error + pyfloat ndarray2" where
  "sk_inverse_transform sc X =
     bind_result (check_array X) (\<lambda>_.
       case scaler_class sc of
         StandardScaler \<Rightarrow>
           bind_result (attr ''scale_'' (scale_attr sc)) (\<lambda>scale.
           bind_result (broadcast_rows (*) X scale) (\<lambda>X1.
           bind_result (attr ''mean_'' (mean_attr sc)) (\<lambda>mean.
             broadcast_rows (+) X1 mean)))
       | MinMaxScaler \<Rightarrow>
           bind_result (attr ''min_'' (min_attr sc)) (\<lambda>mn.
           bind_result (broadcast_rows (-) X mn) (\<lambda>X1.
           bind_result (attr ''scale_'' (scale_attr sc)) (\<lambda>scale.
             broadcast_rows (/) X1 scale)))
       | RobustScaler \<Rightarrow>
           bind_result (attr ''scale_'' (scale_attr sc)) (\<lambda>scale.
           bind_result (broadcast_rows (*) X scale) (\<lambda>X1.
           bind_result (attr ''center_'' (center_attr sc)) (\<lambda>center.
             broadcast_rows (+) X1 center))))"

subsection \<open>\<open>Normalizer\<close>\<close>

text \<open>The field \<open>norm_method\<close> is the attribute \<open>self.method\<close>.\<close>

record normalizer =
  norm_method :: string
  scaler :: sk_scaler
  is_fitted :: bool

definition create_scaler :: "string \<Rightarrow> error + sk_scaler" where
  "create_scaler m =
     (if m = ''standard'' then Inr (new_scaler StandardScaler)
      else if m = ''minmax'' then Inr (new_scaler MinMaxScaler)
      else if m = ''robust'' then Inr (new_scaler RobustScaler)
      else Inl (ValueError (''Unknown normalization method: '' @ m)))"

definition Normalizer :: "string \<Rightarrow> error + normalizer" where
  "Normalizer m =
     bind_result (create_scaler m) (\<lambda>sc.
       Inr \<lparr>norm_method = m, scaler = sc, is_fitted = False\<rparr>)"

definition fit :: "normalizer \<Rightarrow> pyfloat ndarray2 \<Rightarrow> error + normalizer" where
  "fit self data =
     bind_result (sk_fit (scaler self) data) (\<lambda>sc.
       Inr (self\<lparr>scaler := sc, is_fitted := True\<rparr>))"

definition transform :: "normalizer \<Rightarrow> pyfloat ndarray2 \<Rightarrow> error + pyfloat ndarray2" where
  "transform self data =
     (if \<not> is_fitted self then Inl (ValueError ''Normalizer must be fitted before transform'')
      else sk_transform (scaler self) data)"

definition fit_transform ::
  "normalizer \<Rightarrow> pyfloat ndarray2 \<Rightarrow> error + normalizer \<times> pyfloat ndarray2" where
  "fit_transform self data =
     bind_result (fit self data) (\<lambda>fitted.
     bind_result (transform fitted data) (\<lambda>out. Inr (fitted, out)))"

definition inverse_transform :: "normalizer \<Rightarrow> pyfloat ndarray2 \<Rightarrow> error + pyfloat ndarray2" where
  "inverse_transform self data =
     (if \<not> is_fitted self
        then Inl (ValueError ''Normalizer must be fitted before inverse_transform'')
      else sk_inverse_transform (scaler self) data)"

subsection \<open>Persistence\<close>

text \<open>
  The parameter document is a JSON object.  \<open>json.dump\<close> writes a float with its
  shortest round-tripping representation, and NaN and the infinities as tokens that
  \<open>json.load\<close> accepts, so a list of floats is read back as written; the disk maps a
  path to the document stored there.
\<close>

datatype json =
    JString string
  | JBool bool
  | JNumber pyfloat
  | JFloats "pyfloat list"
  | JStrings "string list"
  | JObject "(string \<times> json) list"

type_synonym json_object = "(string \<times> json) list"

type_synonym disk = "string \<Rightarrow> json_object option"

definition save_params :: "normalizer \<Rightarrow> error + json_object" where
  "save_params self =
     (let params = [(''method'', JString (norm_method self)), (''is_fitted'', JBool (is_fitted self))]
      in if norm_method self = ''standard'' then
           bind_result (attr ''mean_'' (mean_attr (scaler self))) (\<lambda>mean.
           bind_result (attr ''scale_'' (scale_attr (scaler self))) (\<lambda>scale.
             Inr (params @ [(''mean'', JFloats mean), (''scale'', JFloats scale)])))
         else if norm_method self = ''minmax'' then
           bind_result (attr ''min_'' (min_attr (scaler self))) (\<lambda>mn.
           bind_result (attr ''scale_'' (scale_attr (scaler self))) (\<lambda>scale.
           bind_result (attr ''data_min_'' (data_min_attr (scaler self))) (\<lambda>data_min.
           bind_result (attr ''data_max_'' (data_max_attr (scaler self))) (\<lambda>data_max.
             Inr (params @ [(''min'', JFloats mn), (''scale'', JFloats scale),
                            (''data_min'', JFloats data_min),
                            (''data_max'', JFloats data_max)])))))
         else if norm_method self = ''robust'' then
           bind_result (attr ''center_'' (center_attr (scaler self))) (\<lambda>center.
           bind_result (attr ''scale_'' (scale_attr (scaler self))) (\<lambda>scale.
             Inr (params @ [(''center'', JFloats center), (''scale'', JFloats scale)])))
         else Inr params)"

definition save :: "normalizer \<Rightarrow> string \<Rightarrow> disk \<Rightarrow> error + disk" where
  "save self path d =
     (if \<not> is_fitted self then Inl (ValueError ''Cannot save unfitted scaler'')
      else bind_result (save_params self) (\<lambda>params. Inr (d(path \<mapsto> params))))"

definition get_string :: "json_object \<Rightarrow> string \<Rightarrow> error + string" where
  "get_string params k =
     (case map_of params k of
        None \<Rightarrow> Inl (KeyError k)
      | Some (JString s) \<Rightarrow> Inr s
      | Some _ \<Rightarrow> Inl (TypeError k))"

definition get_floats :: "json_object \<Rightarrow> string \<Rightarrow> error + pyfloat list" where
  "get_floats params k =
     (case map_of params k of
        None \<Rightarrow> Inl (KeyError k)
      | Some (JFloats xs) \<Rightarrow> Inr xs
      | Some _ \<Rightarrow> Inl (TypeError k))"

definition load_params :: "json_object \<Rightarrow> error + normalizer" where
  "load_params params =
     bind_result (get_string params ''method'') (\<lambda>m.
     bind_result (Normalizer m) (\<lambda>normalizer.
     bind_result
       (if m = ''standard'' then
          bind_result (get_floats params ''mean'') (\<lambda>mean.
          bind_result (get_floats params ''scale'') (\<lambda>scale.
            Inr ((scaler normalizer)
                   \<lparr>mean_attr := Some mean, scale_attr := Some scale,
                    n_features_in_attr := Some (length mean)\<rparr>)))
        else if m = ''minmax'' then
          bind_result (get_floats params ''min'') (\<lambda>mn.
          bind_result (get_floats params ''scale'') (\<lambda>scale.
          bind_result (get_floats params ''data_min'') (\<lambda>data_min.
          bind_result (get_floats params ''data_max'') (\<lambda>data_max.
            Inr ((scaler normalizer)
                   \<lparr>min_attr := Some mn, scale_attr := Some scale,
                    data_min_attr := Some data_min, data_max_attr := Some data_max,
                    n_features_in_attr := Some (length mn)\<rparr>)))))
        else if m = ''robust'' then
          bind_result (get_floats params ''center'') (\<lambda>center.
          bind_result (get_floats params ''scale'') (\<lambda>scale.
            Inr ((scaler normalizer)
                   \<lparr>center_attr := Some center, scale_attr := Some scale,
                    n_features_in_attr := Some (length center)\<rparr>)))
        else Inr (scaler normalizer))
       (\<lambda>sc. Inr (normalizer\<lparr>scaler := sc, is_fitted := True\<rparr>))))"

definition load :: "string \<Rightarrow> disk \<Rightarrow> error + normalizer" where
  "load path d =
     (case d path of
        None \<Rightarrow> Inl (FileNotFoundError path)
      | Some params \<Rightarrow> load_params params)"

section \<open>Training data preparation (api/training.py, steps 3 to 5 of \<open>train_model\<close>)\<close>

subsection \<open>\<open>int(n * 0.7)\<close> and \<open>int(n * 0.15)\<close> in double precision\<close>

text \<open>
  The split sizes are computed in binary floating point, and the result is not always
  the floor of the exact product (\<open>int(90 * 0.7)\<close> is 62).  The literal is the double
  \<open>num / 2 ^ k\<close>; the product of the integer \<open>n\<close> with it is rounded to 53 significant
  bits, ties to even, and then truncated.
\<close>

fun bit_length :: "nat \<Rightarrow> nat" where
  "bit_length n = (if n = 0 then 0 else Suc (bit_length (n div 2)))"

declare bit_length.simps [simp del]

definition round_half_even :: "nat \<Rightarrow> nat \<Rightarrow> nat" where
  "round_half_even p s =
     (let lo = p div 2 ^ s; r = p mod 2 ^ s
      in if s = 0 then p
         else if 2 ^ s < 2 * r \<or> (2 * r = 2 ^ s \<and> odd lo) then lo + 1
         else lo)"

definition int_of_double_product :: "nat \<Rightarrow> nat \<Rightarrow> nat \<Rightarrow> nat" where
  "int_of_double_product n num k =
     (let p = n * num; s = bit_length p - 53
      in (round_half_even p s * 2 ^ s) div 2 ^ k)"

definition train_size_of :: "nat \<Rightarrow> nat" where
  "train_size_of n = int_of_double_product n 3152519739159347 52"

definition val_size_of :: "nat \<Rightarrow> nat" where
  "val_size_of n = int_of_double_product n 5404319552844595 55"

subsection \<open>Normalisation, windows and the chronological split\<close>

record training_data =
  X_normalizer :: normalizer
  y_normalizer :: normalizer
  X_train :: "pyfloat ndarray2 list"
  y_train :: "pyfloat list"
  X_val :: "pyfloat ndarray2 list"
  y_val :: "pyfloat list"
  X_test :: "pyfloat ndarray2 list"
  y_test :: "pyfloat list"

text \<open>
  \<open>X_data\<close> is the feature matrix and \<open>y_data\<close> the close column of the rows the feature
  engine kept.  Both scalers are fitted and applied (\<open>fit_transform\<close>) before the windows
  are built and split.  The targets \<open>create_sequences\<close> returns are discarded and
  replaced by the normalised close from row \<open>sequence_length\<close> on, as a
  \<open>torch.FloatTensor\<close> (single precision).
\<close>

definition prepare_data ::
  "string \<Rightarrow> nat \<Rightarrow> pyfloat ndarray2 \<Rightarrow> pyfloat list \<Rightarrow> error + training_data" where
  "prepare_data normalization sequence_length X_data y_data =
     bind_result (Normalizer normalization) (\<lambda>xn.
     bind_result (fit_transform xn X_data) (\<lambda>(X_normalizer', X_normalized).
     bind_result (Normalizer normalization) (\<lambda>yn.
     bind_result (fit_transform yn (map (\<lambda>v. [v]) y_data)) (\<lambda>(y_normalizer', y_2d).
     bind_result (create_sequences X_normalized sequence_length 0 1) (\<lambda>(X_sequences, _).
       let y_normalized = concat y_2d;
           y_close_normalized = drop sequence_length y_normalized;
           y_targets = map to_float32 (take (length X_sequences) y_close_normalized);
           n = length X_sequences;
           train_size = train_size_of n;
           val_size = val_size_of n
       in Inr \<lparr>X_normalizer = X_normalizer', y_normalizer = y_normalizer',
               X_train = take train_size X_sequences,
               y_train = take train_size y_targets,
               X_val = take val_size (drop train_size X_sequences),
               y_val = take val_size (drop train_size y_targets),
               X_test = drop (train_size + val_size) X_sequences,
               y_test = drop (train_size + val_size) y_targets\<rparr>)))))"

text \<open>
  For stating the leakage property: the raw rows that feed the training partition.
  Training window \<open>i < train_size\<close> reads feature rows \<open>[i, i + L)\<close> and the close of row
  \<open>i + L\<close>, so the partition is fed by the first \<open>train_size + L\<close> rows.
\<close>

definition training_rows ::
  "nat \<Rightarrow> pyfloat ndarray2 \<Rightarrow> pyfloat list \<Rightarrow> pyfloat ndarray2 \<times> pyfloat list" where
  "training_rows sequence_length X_data y_data =
     (let n = nat (int (length X_data) - int sequence_length);
          used = train_size_of n + sequence_length
      in (take used X_data, take used y_data))"

section \<open>The training loop (training/trainer.py)\<close>

subsection \<open>Tensors, modules and state dictionaries\<close>

text \<open>
  A tensor is a handle on a storage cell; the heap maps a cell to its contents (of an
  arbitrary type \<open>'w\<close>).  A module is the ordered dictionary of its named parameter and
  buffer tensors.

  \<^item> \<open>model.state_dict()\<close> returns an ordered dictionary whose entries are detached
    tensors \<^emph>\<open>sharing the storage\<close> of the module's own: the same cells.
  \<^item> \<open>dict.copy()\<close> makes a new dictionary with the same entries (a shallow copy): the
    same cells again.
  \<^item> The optimizer step and the batch-norm statistics update the module's tensors in
    place: the heap changes at the module's cells.
  \<^item> \<open>load_state_dict\<close> checks that the names agree and copies, entry by entry, the
    contents of the given tensor into the module's tensor of that name.
  \<^item> \<open>torch.save\<close> serialises contents: a file holds values, not cells.
\<close>

type_synonym addr = nat

type_synonym 'w heap = "addr \<Rightarrow> 'w"

type_synonym state_dict = "(string \<times> addr) list"

definition module_state_dict :: "state_dict \<Rightarrow> state_dict" where
  "module_state_dict mdl = mdl"

definition dict_copy :: "state_dict \<Rightarrow> state_dict" where
  "dict_copy d = d"

definition read_params :: "state_dict \<Rightarrow> 'w heap \<Rightarrow> 'w list" where
  "read_params mdl h = map (\<lambda>(name, a). h a) mdl"

fun write_params :: "state_dict \<Rightarrow> 'w list \<Rightarrow> 'w heap \<Rightarrow> 'w heap" where
  "write_params ((name, a) # mdl) (v # vs) h = write_params mdl vs (h(a := v))"
| "write_params mdl vs h = h"

fun copy_params :: "state_dict \<Rightarrow> state_dict \<Rightarrow> 'w heap \<Rightarrow> 'w heap" where
  "copy_params [] sd h = h"
| "copy_params ((name, a) # mdl) sd h =
     copy_params mdl sd
       (case map_of sd name of None \<Rightarrow> h | Some src \<Rightarrow> h(a := h src))"

definition load_state_dict :: "state_dict \<Rightarrow> state_dict \<Rightarrow> 'w heap \<Rightarrow> error + 'w heap" where
  "load_state_dict mdl sd h =
     (if set (map fst mdl) \<noteq> set (map fst sd)
        then Inl (RuntimeError ''Error(s) in loading state_dict'')
      else Inr (copy_params mdl sd h))"

definition serialize :: "state_dict \<Rightarrow> 'w heap \<Rightarrow> (string \<times> 'w) list" where
  "serialize sd h = map (\<lambda>(name, a). (name, h a)) sd"

subsection \<open>The predictor and optimizer, as parameters\<close>

text \<open>
  The network, the loss, the optimizer and the plateau scheduler are library code.  One
  optimisation step on a batch maps the optimizer state and the current contents of the
  module's tensors to new ones and reports the batch loss; the validation loss of a
  batch is a function of the contents; the scheduler updates the optimizer state from
  the epoch's validation loss; the evaluation on the test set may raise.
\<close>

type_synonym batch = "(pyfloat ndarray2 \<times> pyfloat) list"

record ('w, 'o) torch_backend =
  train_step :: "'o \<Rightarrow> 'w list \<Rightarrow> batch \<Rightarrow> 'o \<times> 'w list \<times> pyfloat"
  batch_loss :: "'w list \<Rightarrow> batch \<Rightarrow> pyfloat"
  scheduler_step :: "'o \<Rightarrow> pyfloat \<Rightarrow> 'o"
  test_metrics :: "'w list \<Rightarrow> batch list \<Rightarrow> error + json_object"

subsection \<open>\<open>Trainer\<close>\<close>

datatype ('w, 'o) torch_file =
    CheckpointFile "(string \<times> 'w) list" 'o "pyfloat list" "pyfloat list" pyfloat
  | ModelFile "(string \<times> 'w) list"

record ('w, 'o) trainer =
  model :: state_dict
  heap :: "'w heap"
  optimizer :: 'o
  train_losses :: "pyfloat list"
  val_losses :: "pyfloat list"
  best_val_loss :: pyfloat
  best_model_state :: "state_dict option"
  epochs_without_improvement :: nat
  torch_files :: "string \<Rightarrow> ('w, 'o) torch_file option"

definition Trainer ::
  "state_dict \<Rightarrow> 'w heap \<Rightarrow> 'o \<Rightarrow> (string \<Rightarrow> ('w, 'o) torch_file option) \<Rightarrow> ('w, 'o) trainer" where
  "Trainer mdl h opt files =
     \<lparr>model = mdl, heap = h, optimizer = opt, train_losses = [], val_losses = [],
      best_val_loss = PInf, best_model_state = None, epochs_without_improvement = 0,
      torch_files = files\<rparr>"

text \<open>Python's \<open>total / count\<close> on a float and an int: a zero count raises.\<close>

definition py_truediv :: "pyfloat \<Rightarrow> nat \<Rightarrow> error + pyfloat" where
  "py_truediv numerator count =
     (if count = 0 then Inl ZeroDivisionError else Inr (numerator / Fin (real count)))"

fun train_batches ::
  "('w, 'o) torch_backend \<Rightarrow> batch list \<Rightarrow> ('w, 'o) trainer \<Rightarrow> pyfloat \<times> nat
     \<Rightarrow> ('w, 'o) trainer \<times> pyfloat \<times> nat" where
  "train_batches B [] self (total_loss, num_batches) = (self, total_loss, num_batches)"
| "train_batches B (b # bs) self (total_loss, num_batches) =
     (case train_step B (optimizer self) (read_params (model self) (heap self)) b of
        (opt', params', loss) \<Rightarrow>
          train_batches B bs
            (self\<lparr>heap := write_params (model self) params' (heap self), optimizer := opt'\<rparr>)
            (total_loss + loss, num_batches + 1))"

definition train_epoch ::
  "('w, 'o) torch_backend \<Rightarrow> batch list \<Rightarrow> ('w, 'o) trainer \<Rightarrow> error + ('w, 'o) trainer \<times> pyfloat" where
  "train_epoch B train_loader self =
     (case train_batches B train_loader self (Fin 0, 0) of
        (self', total_loss, num_batches) \<Rightarrow>
          bind_result (py_truediv total_loss num_batches) (\<lambda>avg_loss. Inr (self', avg_loss)))"

definition validate ::
  "('w, 'o) torch_backend \<Rightarrow> batch list \<Rightarrow> ('w, 'o) trainer \<Rightarrow> error + pyfloat" where
  "validate B val_loader self =
     py_truediv
       (foldl (\<lambda>total_loss b. total_loss + batch_loss B (read_params (model self) (heap self)) b)
          (Fin 0) val_loader)
       (length val_loader)"

definition save_checkpoint :: "string \<Rightarrow> ('w, 'o) trainer \<Rightarrow> ('w, 'o) trainer" where
  "save_checkpoint path self =
     self\<lparr>torch_files := (torch_files self)
       (path \<mapsto> CheckpointFile (serialize (module_state_dict (model self)) (heap self))
                  (optimizer self) (train_losses self) (val_losses self) (best_val_loss self))\<rparr>"

text \<open>
  One iteration of the epoch loop up to the early-stopping test.  The training loader
  shuffles, so it is a function from the epoch to that epoch's batch sequence.
\<close>

definition epoch_body ::
  "('w, 'o) torch_backend \<Rightarrow> (nat \<Rightarrow> batch list) \<Rightarrow> batch list \<Rightarrow> string option \<Rightarrow> nat
     \<Rightarrow> ('w, 'o) trainer \<Rightarrow> error + ('w, 'o) trainer" where
  "epoch_body B train_loader val_loader checkpoint_dir epoch self =
     bind_result (train_epoch B (train_loader epoch) self) (\<lambda>(self1, train_loss).
       let self2 = self1\<lparr>train_losses := train_losses self1 @ [train_loss]\<rparr>
       in bind_result (validate B val_loader self2) (\<lambda>val_loss.
            let self3 = self2\<lparr>val_losses := val_losses self2 @ [val_loss],
                             optimizer := scheduler_step B (optimizer self2) val_loss\<rparr>
            in Inr (if flt val_loss (best_val_loss self3)
                    then (let self4 = self3\<lparr>best_val_loss := val_loss,
                                          best_model_state :=
                                            Some (dict_copy (module_state_dict (model self3))),
                                          epochs_without_improvement := 0\<rparr>
                          in case checkpoint_dir of
                               None \<Rightarrow> self4
                             | Some dir \<Rightarrow> save_checkpoint (dir @ ''/best_model.pt'') self4)
                    else self3\<lparr>epochs_without_improvement :=
                                 epochs_without_improvement self3 + 1\<rparr>)))"

fun train_loop ::
  "('w, 'o) torch_backend \<Rightarrow> (nat \<Rightarrow> batch list) \<Rightarrow> batch list \<Rightarrow> int \<Rightarrow> string option
     \<Rightarrow> nat list \<Rightarrow> ('w, 'o) trainer \<Rightarrow> error + ('w, 'o) trainer" where
  "train_loop B train_loader val_loader early_stopping_patience checkpoint_dir [] self = Inr self"
| "train_loop B train_loader val_loader early_stopping_patience checkpoint_dir (epoch # rest) self =
     bind_result (epoch_body B train_loader val_loader checkpoint_dir epoch self) (\<lambda>self'.
       if early_stopping_patience \<le> int (epochs_without_improvement self') then Inr self'
       else train_loop B train_loader val_loader early_stopping_patience checkpoint_dir rest self')"

record history =
  epochs_run :: nat
  history_best_val_loss :: pyfloat
  history_train_losses :: "pyfloat list"
  history_val_losses :: "pyfloat list"

text \<open>
  The block after the loop: \<open>if self.best_model_state: load_state_dict(...)\<close>.  An unset
  or empty dictionary is falsy.
\<close>

definition restore_best :: "('w, 'o) trainer \<Rightarrow> error + ('w, 'o) trainer" where
  "restore_best self =
     (case best_model_state self of
        None \<Rightarrow> Inr self
      | Some best \<Rightarrow>
          if best = [] then Inr self
          else bind_result (load_state_dict (model self) best (heap self)) (\<lambda>h.
                 Inr (self\<lparr>heap := h\<rparr>)))"

text \<open>
  \<open>Trainer.train\<close>: the loop over \<open>range(epochs)\<close>, the restore, then the history (the
  wall-clock \<open>training_time\<close> is left out).
\<close>

definition train ::
  "('w, 'o) torch_backend \<Rightarrow> (nat \<Rightarrow> batch list) \<Rightarrow> batch list \<Rightarrow> int \<Rightarrow> int \<Rightarrow> string option
     \<Rightarrow> ('w, 'o) trainer \<Rightarrow> error + history \<times> ('w, 'o) trainer" where
  "train B train_loader val_loader epochs early_stopping_patience checkpoint_dir self =
     bind_result
       (train_loop B train_loader val_loader early_stopping_patience checkpoint_dir
          [0 ..< nat epochs] self) (\<lambda>self1.
     bind_result (restore_best self1) (\<lambda>self2.
       Inr (\<lparr>epochs_run = length (train_losses self2),
             history_best_val_loss = best_val_loss self2,
             history_train_losses = train_losses self2,
             history_val_losses = val_losses self2\<rparr>, self2)))"

text \<open>
  For the proofs: the snapshot, when there is one, is the module's own dictionary of
  cells (the situation the shallow copy creates).
\<close>

definition snapshot_aliases :: "('w, 'o) trainer \<Rightarrow> bool" where
  "snapshot_aliases self \<longleftrightarrow>
     best_model_state self = None \<or> best_model_state self = Some (model self)"

section \<open>Training and publishing (api/training.py, steps 6 to 10 of \<open>train_model\<close>)\<close>












section \<open>Properties of the ensemble combiner\<close>

subsection \<open>Voting\<close>

lemma flt_fkey: "\<not> isnan a \<Longrightarrow> \<not> isnan b \<Longrightarrow> flt a b \<longleftrightarrow> fkey a < fkey b"
  by (cases a; cases b) simp_all

lemma flt_nan_right [simp]: "\<not> flt x NaN"
  by (cases x) simp_all

lemma filter_above_sorted:
  assumes "sorted (map f s)" and "k < length s"
  shows "length (filter (\<lambda>p. f (s ! k) < f p) s) \<le> length s - Suc k"
proof -
  have low: "filter (\<lambda>p. f (s ! k) < f p) (take (Suc k) s) = []"
  proof -
    have "\<not> f (s ! k) < f p" if "p \<in> set (take (Suc k) s)" for p
    proof -
      from that obtain i where i: "i < Suc k" "p = s ! i"
        using assms(2) by (auto simp: in_set_conv_nth)
      have "map f s ! i \<le> map f s ! k"
        using assms i by (intro sorted_nth_mono) auto
      then show ?thesis using i assms(2) by simp
    qed
    then show ?thesis by (simp add: filter_empty_conv)
  qed
  have "filter (\<lambda>p. f (s ! k) < f p) s
      = filter (\<lambda>p. f (s ! k) < f p) (take (Suc k) s @ drop (Suc k) s)"
    by simp
  also have "\<dots> = filter (\<lambda>p. f (s ! k) < f p) (drop (Suc k) s)"
    unfolding filter_append low by simp
  finally have "length (filter (\<lambda>p. f (s ! k) < f p) s) \<le> length (drop (Suc k) s)"
    by (metis length_filter_le)
  then show ?thesis by simp
qed

lemma length_filter_sort_key: "length (filter P (sort_key f xs)) = length (filter P xs)"
  by (simp add: filter_sort)

lemma median_pair_bound:
  assumes "\<not> isnan a" "\<not> isnan b" "\<not> isnan p" "fkey a \<le> fkey b" "flt ((a + b) / Fin 2) p"
  shows "fkey a < fkey p"
  using assms by (cases a; cases b; cases p) (auto split: if_splits)


lemma length_filter_mono:
  "(\<And>x. x \<in> set xs \<Longrightarrow> P x \<Longrightarrow> Q x) \<Longrightarrow> length (filter P xs) \<le> length (filter Q xs)"
  by (induction xs) auto

lemma votes_up_le_half:
  "length (filter (\<lambda>p. fgt p (np_median xs)) xs) \<le> length xs div 2"
proof (cases "xs = [] \<or> list_ex isnan xs")
  case True
  then have "np_median xs = NaN" by (simp add: np_median_def)
  then show ?thesis by (simp add: fgt_def)
next
  case False
  define s where "s = sort_key fkey xs"
  define n where "n = length xs"
  define k where "k = (n - 1) div 2"
  define m where "m = np_median xs"
  from False have ne: "xs \<noteq> []" and nonan: "\<And>x. x \<in> set xs \<Longrightarrow> \<not> isnan x"
    by (auto simp: list_ex_iff)
  have n_pos: "0 < n" using ne by (simp add: n_def)
  have len_s: "length s = n" by (simp add: s_def n_def)
  have set_s: "set s = set xs" by (simp add: s_def)
  have sorted_s: "sorted (map fkey s)" by (simp add: s_def)
  have k_lt: "k < length s" using n_pos by (simp add: k_def len_s)
  have lo_in: "s ! k \<in> set xs" using k_lt set_s nth_mem by blast
  have m_eq: "m = (if even n then (s ! (n div 2 - 1) + s ! (n div 2)) / Fin 2 else s ! (n div 2))"
    using False by (simp add: m_def np_median_def s_def n_def Let_def)
  have above: "fkey (s ! k) < fkey p" if "p \<in> set xs" "fgt p m" for p
  proof (cases "even n")
    case True
    then have n2: "n div 2 - 1 = k" "n div 2 < length s" "k \<le> n div 2"
      using n_pos by (auto simp: k_def len_s elim!: evenE)
    have "map fkey s ! k \<le> map fkey s ! (n div 2)"
      using sorted_s n2 by (intro sorted_nth_mono) auto
    then have le: "fkey (s ! k) \<le> fkey (s ! (n div 2))" using n2 k_lt by simp
    have hi_in: "s ! (n div 2) \<in> set xs" using n2 set_s nth_mem by blast
    have "flt ((s ! k + s ! (n div 2)) / Fin 2) p"
      using that True n2 by (simp add: fgt_def m_eq)
    then show ?thesis
      using median_pair_bound [OF nonan [OF lo_in] nonan [OF hi_in] nonan [OF that(1)] le] by simp
  next
    case False
    then have "n div 2 = k" by (auto simp: k_def elim!: oddE)
    with False that have "flt (s ! k) p" by (simp add: fgt_def m_eq)
    then show ?thesis using flt_fkey [OF nonan [OF lo_in] nonan [OF that(1)]] by simp
  qed
  have "length (filter (\<lambda>p. fgt p m) xs) \<le> length (filter (\<lambda>p. fkey (s ! k) < fkey p) xs)"
    by (rule length_filter_mono) (rule above)
  also have "\<dots> = length (filter (\<lambda>p. fkey (s ! k) < fkey p) s)"
    by (simp add: s_def filter_sort)
  also have "\<dots> \<le> length s - Suc k"
    by (rule filter_above_sorted [OF sorted_s k_lt])
  also have "\<dots> = n div 2"
    using n_pos by (simp add: len_s k_def)
  finally show ?thesis by (simp add: m_def n_def)
qed


text \<open>
  Claim C10.  For every non-empty list of \<open>n\<close> model predictions the VOTING strategy
  returns a result whose confidence is \<open>max(votes_up, votes_down) / n\<close> and lies in
  \<open>[1/2, 1]\<close>: at most \<open>n div 2\<close> predictions lie strictly above the median, so
  the down-or-equal side holds at least \<open>(n + 1) div 2\<close> votes.  NaN and infinite
  predictions are covered.
\<close>

theorem voting_confidence_at_least_half:
  assumes "predictions \<noteq> []"
  shows "\<exists>r up down.
           voting predictions = Inr r \<and> votes r = Some (up, down) \<and>
           up \<le> length predictions div 2 \<and>
           (length predictions + 1) div 2 \<le> down \<and>
           confidence r = Fin (real (max up down) / real (length predictions)) \<and>
           1 / 2 \<le> real (max up down) / real (length predictions) \<and>
           real (max up down) / real (length predictions) \<le> 1"
proof -
  define n where "n = length predictions"
  define up where
    "up = length (filter (\<lambda>p. fgt p (np_median (map predicted_price predictions)))
                   (map predicted_price predictions))"
  define down where "down = n - up"
  have n_pos: "0 < n" using assms by (simp add: n_def)
  have up_le: "up \<le> n div 2"
    using votes_up_le_half [of "map predicted_price predictions"] by (simp add: up_def n_def)
  then have down_ge: "(n + 1) div 2 \<le> down" unfolding down_def by linarith
  have v: "voting predictions =
      Inr \<lparr>ensemble_strategy = ''VOTING'',
           ensemble_predicted_price = np_median (map predicted_price predictions),
           confidence = Fin (real (max up down) / real n),
           models_used = n, votes = Some (up, down),
           individual_predictions = predictions\<rparr>"
    using n_pos by (simp add: voting_def Let_def up_def down_def n_def)
  have "max up down = down" using up_le down_ge by (simp add: max_def)
  moreover have "down \<le> n" by (simp add: down_def)
  moreover have "real n \<le> 2 * real down" using down_ge by linarith
  ultimately have bounds: "1 / 2 \<le> real (max up down) / real n" "real (max up down) / real n \<le> 1"
    using n_pos by (simp_all add: field_simps)
  show ?thesis
    unfolding v using up_le down_ge bounds by (simp add: n_def)
qed


text \<open>The theorem at two models predicting 100 and 102.\<close>

theorem voting_confidence_at_least_half_witness:
  "[\<lparr>model_type = ''LSTM'', predicted_price = Fin 100, accuracy = Fin (1 / 2)\<rparr>,
    \<lparr>model_type = ''GRU'', predicted_price = Fin 102, accuracy = Fin (1 / 2)\<rparr>] \<noteq> [] \<and>
   (\<exists>r up down.
      voting [\<lparr>model_type = ''LSTM'', predicted_price = Fin 100, accuracy = Fin (1 / 2)\<rparr>,
              \<lparr>model_type = ''GRU'', predicted_price = Fin 102, accuracy = Fin (1 / 2)\<rparr>] = Inr r \<and>
      votes r = Some (up, down) \<and> up \<le> 1 \<and> 1 \<le> down \<and>
      confidence r = Fin (real (max up down) / 2) \<and>
      1 / 2 \<le> real (max up down) / 2 \<and> real (max up down) / 2 \<le> 1)"
  using voting_confidence_at_least_half
    [of "[\<lparr>model_type = ''LSTM'', predicted_price = Fin 100, accuracy = Fin (1 / 2)\<rparr>,
          \<lparr>model_type = ''GRU'', predicted_price = Fin 102, accuracy = Fin (1 / 2)\<rparr>]"]
  by simp

subsection \<open>Weighted average\<close>



lemma sum_list_map_divide: "sum_list (map (\<lambda>w. w / s) ws) = sum_list ws / (s::real)"
  by (induction ws) (simp_all add: add_divide_distrib)





subsection \<open>The weights' normalisation never makes \<open>np.average\<close> raise\<close>

lemma pyfloat_NaN_right [simp]: "x + NaN = NaN" "x * NaN = NaN" "x / NaN = NaN" "x - NaN = NaN"
  by (cases x; simp add: minus_pyfloat_def)+

lemma sum_list_NaN: "NaN \<in> set xs \<Longrightarrow> sum_list xs = NaN"
proof (induction xs)
  case Nil
  then show ?case by simp
next
  case (Cons x xs)
  show ?case
  proof (cases "x = NaN")
    case True
    then show ?thesis by simp
  next
    case False
    with Cons have "sum_list xs = NaN" by simp
    then show ?thesis by (cases x) simp_all
  qed
qed

lemma sum_list_Fin_all: "sum_list xs = Fin c \<Longrightarrow> \<exists>rs. xs = map Fin rs"
proof (induction xs arbitrary: c)
  case Nil
  then show ?case by simp
next
  case (Cons x xs)
  from Cons.prems obtain a b where x: "x = Fin a" and s: "sum_list xs = Fin b"
    by (cases x; cases "sum_list xs") simp_all
  from Cons.IH [OF s] obtain rs where "xs = map Fin rs" ..
  with x have "x # xs = map Fin (a # rs)" by simp
  then show ?case ..
qed

lemma sum_list_PInf_NInf:
  assumes "PInf \<in> set xs" and "NInf \<in> set xs"
  shows "sum_list xs = NaN"
proof -
  have *: "PInf \<in> set xs \<Longrightarrow> sum_list xs = PInf \<or> sum_list xs = NaN" for xs
  proof (induction xs)
    case Nil
    then show ?case by simp
  next
    case (Cons x xs)
    then show ?case by (cases x; cases "sum_list xs") auto
  qed
  have **: "NInf \<in> set xs \<Longrightarrow> sum_list xs = NInf \<or> sum_list xs = NaN" for xs
  proof (induction xs)
    case Nil
    then show ?case by simp
  next
    case (Cons x xs)
    then show ?case by (cases x; cases "sum_list xs") auto
  qed
  from * [OF assms(1)] ** [OF assms(2)] show ?thesis by auto
qed

lemma sum_list_all_pos: "rs \<noteq> [] \<Longrightarrow> (\<And>r. r \<in> set rs \<Longrightarrow> 0 < r) \<Longrightarrow> 0 < sum_list (rs :: real list)"
proof (induction rs)
  case Nil
  then show ?case by simp
next
  case (Cons r rs)
  then show ?case by (cases rs) (auto intro: add_pos_pos)
qed

lemma mixed_signs:
  assumes "rs \<noteq> []" and "sum_list rs = (0::real)" and "\<And>r. r \<in> set rs \<Longrightarrow> r \<noteq> 0"
  shows "(\<exists>r\<in>set rs. 0 < r) \<and> (\<exists>r\<in>set rs. r < 0)"
proof -
  have pos: "\<exists>r\<in>set rs. 0 < r"
  proof (rule ccontr)
    assume "\<not> ?thesis"
    then have "\<And>r. r \<in> set (map uminus rs) \<Longrightarrow> 0 < r" using assms(3) by force
    then have "0 < sum_list (map uminus rs)" using assms(1) by (intro sum_list_all_pos) auto
    moreover have "sum_list (map uminus rs) = - sum_list rs"
      by (induction rs) simp_all
    ultimately show False using assms(2) by simp
  qed
  have neg: "\<exists>r\<in>set rs. r < 0"
  proof (rule ccontr)
    assume "\<not> ?thesis"
    then have "\<And>r. r \<in> set rs \<Longrightarrow> 0 < r" using assms(3) by force
    then have "0 < sum_list rs" using assms(1) by (intro sum_list_all_pos) auto
    then show False using assms(2) by simp
  qed
  from pos neg show ?thesis ..
qed

lemma isfinite_iff: "isfinite w \<longleftrightarrow> (\<exists>r. w = Fin r)"
  by (cases w) simp_all

lemma all_finite_map_Fin: "(\<And>w. w \<in> set ws \<Longrightarrow> isfinite w) \<Longrightarrow> \<exists>rs. ws = map Fin rs"
proof (induction ws)
  case Nil
  then show ?case by simp
next
  case (Cons w ws)
  from Cons.prems have "isfinite w" by simp
  then obtain r where "w = Fin r" by (auto simp: isfinite_iff)
  moreover from Cons obtain rs where "ws = map Fin rs" by auto
  ultimately have "ws = map Fin rs" "w = Fin r" by simp_all
  then have "w # ws = map Fin (r # rs)" by simp
  then show ?case ..
qed

lemma nonfinite_sum_has_nonfinite:
  assumes "\<not> isfinite (sum_list ws)"
  shows "\<exists>w\<in>set ws. \<not> isfinite w"
proof (rule ccontr)
  assume "\<not> ?thesis"
  then have "\<exists>rs. ws = map Fin rs" by (intro all_finite_map_Fin) auto
  then show False using assms by (auto simp: sum_list_Fin)
qed

lemma normalised_weights_sum:
  assumes "ws \<noteq> []"
  shows "sum_list (map (\<lambda>w. w / sum_list ws) ws) \<noteq> Fin 0"
proof (cases "sum_list ws")
  case NaN
  from assms obtain w where "w \<in> set ws" by (cases ws) auto
  then have "w / NaN \<in> set (map (\<lambda>w. w / sum_list ws) ws)"
    unfolding NaN by force
  then have "NaN \<in> set (map (\<lambda>w. w / sum_list ws) ws)"
    by (simp del: set_map)
  then show ?thesis by (simp add: sum_list_NaN del: set_map)
next
  case (Fin c)
  from sum_list_Fin_all [OF Fin] obtain rs where ws: "ws = map Fin rs" ..
  have c: "sum_list rs = c" using Fin by (simp add: ws sum_list_Fin)
  have ne: "rs \<noteq> []" using assms ws by simp
  show ?thesis
  proof (cases "c = 0")
    case False
    then have "map (\<lambda>w. w / sum_list ws) ws = map Fin (map (\<lambda>w. w / c) rs)"
      unfolding Fin by (simp add: ws)
    then have "sum_list (map (\<lambda>w. w / sum_list ws) ws) = Fin (sum_list rs / c)"
      by (simp add: sum_list_Fin sum_list_map_divide del: map_map)
    then show ?thesis using False c by simp
  next
    case True
    show ?thesis
    proof (cases "\<exists>r\<in>set rs. r = 0")
      case True
      then have "Fin 0 \<in> set ws" by (auto simp: ws)
      then have "Fin 0 / Fin 0 \<in> set (map (\<lambda>w. w / sum_list ws) ws)"
        unfolding Fin \<open>c = 0\<close> by force
      then have "NaN \<in> set (map (\<lambda>w. w / sum_list ws) ws)" by simp
      then show ?thesis by (simp add: sum_list_NaN del: set_map)
    next
      case False
      with mixed_signs [OF ne] c \<open>c = 0\<close>
      obtain p q where p: "p \<in> set rs" "0 < p" and q: "q \<in> set rs" "q < 0" by auto
      have "Fin p / Fin 0 \<in> set (map (\<lambda>w. w / sum_list ws) ws)"
        unfolding Fin \<open>c = 0\<close> using p by (force simp: ws)
      then have P: "PInf \<in> set (map (\<lambda>w. w / sum_list ws) ws)" using p by simp
      have "Fin q / Fin 0 \<in> set (map (\<lambda>w. w / sum_list ws) ws)"
        unfolding Fin \<open>c = 0\<close> using q by (force simp: ws)
      then have Q: "NInf \<in> set (map (\<lambda>w. w / sum_list ws) ws)" using q by simp
      from sum_list_PInf_NInf [OF P Q] show ?thesis by simp
    qed
  qed
next
  case PInf
  have "\<exists>w\<in>set ws. \<not> isfinite w"
    by (rule nonfinite_sum_has_nonfinite) (simp add: PInf)
  then obtain w where w: "w \<in> set ws" "\<not> isfinite w" by blast
  from w(2) have "w / PInf = NaN" by (cases w) simp_all
  then have "NaN \<in> set (map (\<lambda>w. w / sum_list ws) ws)"
    unfolding PInf using w(1) by force
  then show ?thesis by (simp add: sum_list_NaN del: set_map)
next
  case NInf
  have "\<exists>w\<in>set ws. \<not> isfinite w"
    by (rule nonfinite_sum_has_nonfinite) (simp add: NInf)
  then obtain w where w: "w \<in> set ws" "\<not> isfinite w" by blast
  from w(2) have "w / NInf = NaN" by (cases w) simp_all
  then have "NaN \<in> set (map (\<lambda>w. w / sum_list ws) ws)"
    unfolding NInf using w(1) by force
  then show ?thesis by (simp add: sum_list_NaN del: set_map)
qed

lemma normalize_weights_sum_nonzero:
  "ws \<noteq> [] \<Longrightarrow> sum_list (normalize_weights ws) \<noteq> Fin 0"
  unfolding normalize_weights_def by (rule normalised_weights_sum)


subsection \<open>The combined price and confidence\<close>




subsection \<open>Partial failure in \<open>predict\<close>\<close>

lemma collect_predictions_eq:
  "collect_predictions infer symbol horizon mis (ps, ws) =
     (ps @ surviving_predictions infer symbol horizon mis,
      ws @ map accuracy (surviving_predictions infer symbol horizon mis))"
proof (induction mis arbitrary: ps ws)
  case Nil
  show ?case by (simp add: surviving_predictions_def map_filter_simps)
next
  case (Cons mi mis)
  show ?case
  proof (cases "infer mi symbol horizon")
    case (Inl e)
    then show ?thesis
      by (simp add: Cons.IH get_model_prediction_def surviving_predictions_def map_filter_simps)
  next
    case (Inr price)
    then show ?thesis
      by (simp add: Cons.IH get_model_prediction_def surviving_predictions_def map_filter_simps)
  qed
qed

lemma weighted_average_returns:
  assumes "predictions \<noteq> []" and "length weights = length predictions"
  shows "\<exists>r. weighted_average predictions weights = Inr r \<and>
             models_used r = length predictions \<and> individual_predictions r = predictions"
proof -
  have "weights \<noteq> []" using assms by auto
  from normalize_weights_sum_nonzero [OF this] show ?thesis
    using assms(2) by (simp add: weighted_average_def np_average_def Let_def normalize_weights_def)
qed

lemma voting_returns:
  assumes "predictions \<noteq> []"
  shows "\<exists>r. voting predictions = Inr r \<and>
             models_used r = length predictions \<and> individual_predictions r = predictions"
  using assms by (simp add: voting_def Let_def)

text \<open>
  Claim C5.  \<open>predict\<close> raises the "No models found" error when no artifact loads;
  otherwise every model whose inference raises is skipped and the result is the chosen
  strategy applied to the surviving predictions and their weights (VOTING on the
  survivors, the weighted average otherwise), which always is a result, with
  \<open>models_used\<close> the number of survivors; the "No valid predictions" error is raised
  exactly when models loaded and every one of them failed.  (The code raises both as
  \<open>ValueError\<close>, told apart by their messages.)
\<close>

theorem predict_partial_failure:
  "(let models = load_available_models cache symbol;
        ok = surviving_predictions infer symbol horizon models;
        outcome = predict cache infer symbol horizon strategy
    in (models = [] \<longrightarrow> outcome = Inl (ValueError (''No models found for '' @ symbol))) \<and>
       (models \<noteq> [] \<and> ok = [] \<longrightarrow> outcome = Inl (ValueError ''No valid predictions obtained'')) \<and>
       (ok \<noteq> [] \<longrightarrow>
          outcome = (if strategy = ''VOTING'' then voting ok
                     else weighted_average ok (map accuracy ok)) \<and>
          (\<exists>r. outcome = Inr r \<and> models_used r = length ok \<and> individual_predictions r = ok)) \<and>
       (outcome = Inl (ValueError ''No valid predictions obtained'') \<longrightarrow> models \<noteq> [] \<and> ok = []))"
proof -
  define models where "models = load_available_models cache symbol"
  define ok where "ok = surviving_predictions infer symbol horizon models"
  define outcome where "outcome = predict cache infer symbol horizon strategy"
  have coll: "collect_predictions infer symbol horizon models ([], []) = (ok, map accuracy ok)"
    by (simp add: collect_predictions_eq ok_def)
  have empty: "outcome = Inl (ValueError (''No models found for '' @ symbol))" if "models = []"
    using that by (simp add: outcome_def predict_def models_def [symmetric])
  have none: "outcome = Inl (ValueError ''No valid predictions obtained'')"
    if "models \<noteq> []" "ok = []"
    using that coll by (simp add: outcome_def predict_def models_def [symmetric])
  have strat: "outcome = (if strategy = ''VOTING'' then voting ok
                          else weighted_average ok (map accuracy ok))"
    if "ok \<noteq> []"
  proof -
    have "models \<noteq> []"
      using that by (auto simp: ok_def surviving_predictions_def map_filter_simps)
    then have "outcome =
        (if strategy = ''WEIGHTED_AVERAGE'' then weighted_average ok (map accuracy ok)
         else if strategy = ''VOTING'' then voting ok
         else weighted_average ok (map accuracy ok))"
      using that coll by (simp add: outcome_def predict_def models_def [symmetric])
    then show ?thesis by auto
  qed
  have some: "\<exists>r. outcome = Inr r \<and> models_used r = length ok \<and> individual_predictions r = ok"
    if "ok \<noteq> []"
    using strat [OF that] weighted_average_returns [OF that, of "map accuracy ok"]
      voting_returns [OF that]
    by auto
  have only: "models \<noteq> [] \<and> ok = []" if "outcome = Inl (ValueError ''No valid predictions obtained'')"
  proof -
    have "models \<noteq> []" using empty that by auto
    moreover have "ok = []" using some that by (cases "ok = []") auto
    ultimately show ?thesis ..
  qed
  show ?thesis
    unfolding Let_def models_def [symmetric] ok_def [symmetric] outcome_def [symmetric]
    using empty none strat some only by blast
qed

text \<open>
  Two artifacts on disk, the LSTM's inference raising: the result is the weighted
  average of the GRU's prediction alone, price 102 with confidence 1.
\<close>

theorem predict_partial_failure_witness:
  "surviving_predictions
     (\<lambda>mi s h. if mi_type mi = ''LSTM'' then Inl (RuntimeError ''inference failed'')
                  else Inr (Fin 102))
     ''BTCUSDT'' ''1h''
     (load_available_models
        (\<lambda>s. if s = ''BTCUSDT''
           then Some \<lparr>metadata_json = Some \<lparr>directional_accuracy = Some (Fin 55)\<rparr>,
                      lstm_model_pt = True, gru_model_pt = True\<rparr>
           else None)
        ''BTCUSDT'') \<noteq> [] \<and>
   predict
     (\<lambda>s. if s = ''BTCUSDT''
           then Some \<lparr>metadata_json = Some \<lparr>directional_accuracy = Some (Fin 55)\<rparr>,
                      lstm_model_pt = True, gru_model_pt = True\<rparr>
           else None)
     (\<lambda>mi s h. if mi_type mi = ''LSTM'' then Inl (RuntimeError ''inference failed'')
                  else Inr (Fin 102))
     ''BTCUSDT'' ''1h'' ''WEIGHTED_AVERAGE''
   = weighted_average
       [\<lparr>model_type = ''GRU'', predicted_price = Fin 102, accuracy = Fin 55\<rparr>] [Fin 55] \<and>
   predict
     (\<lambda>s. if s = ''BTCUSDT''
           then Some \<lparr>metadata_json = Some \<lparr>directional_accuracy = Some (Fin 55)\<rparr>,
                      lstm_model_pt = True, gru_model_pt = True\<rparr>
           else None)
     (\<lambda>mi s h. if mi_type mi = ''LSTM'' then Inl (RuntimeError ''inference failed'')
                  else Inr (Fin 102))
     ''BTCUSDT'' ''1h'' ''WEIGHTED_AVERAGE''
   = Inr \<lparr>ensemble_strategy = ''WEIGHTED_AVERAGE'', ensemble_predicted_price = Fin 102,
           confidence = Fin 1, models_used = 1, votes = None,
           individual_predictions =
             [\<lparr>model_type = ''GRU'', predicted_price = Fin 102, accuracy = Fin 55\<rparr>]\<rparr>"
proof -
  have w: "weighted_average
       [\<lparr>model_type = ''GRU'', predicted_price = Fin 102, accuracy = Fin 55\<rparr>] [Fin 55]
    = Inr \<lparr>ensemble_strategy = ''WEIGHTED_AVERAGE'', ensemble_predicted_price = Fin 102,
           confidence = Fin 1, models_used = 1, votes = None,
           individual_predictions =
             [\<lparr>model_type = ''GRU'', predicted_price = Fin 102, accuracy = Fin 55\<rparr>]\<rparr>"
    by (simp add: weighted_average_def normalize_weights_def np_average_def np_std_def
          np_mean_def fgt_def Let_def zero_pyfloat_def minus_pyfloat_def)
  show ?thesis
    using predict_partial_failure
      [of "(\<lambda>s. if s = ''BTCUSDT''
           then Some \<lparr>metadata_json = Some \<lparr>directional_accuracy = Some (Fin 55)\<rparr>,
                      lstm_model_pt = True, gru_model_pt = True\<rparr>
           else None)"
          "''BTCUSDT''"
          "(\<lambda>mi s h. if mi_type mi = ''LSTM'' then Inl (RuntimeError ''inference failed'')
                  else Inr (Fin 102))"
          "''1h''" "''WEIGHTED_AVERAGE''"]
    unfolding w [symmetric]
    by (simp add: Let_def load_available_models_def surviving_predictions_def
          get_model_prediction_def map_filter_simps accuracy_or_default_def)
qed

section \<open>Properties of the single-precision conversion\<close>

text \<open>Integers below \<open>2\<^sup>2\<^sup>4\<close> in magnitude are single-precision numbers.\<close>

lemma round_half_even_real_of_int [simp]: "round_half_even_real (of_int k) = k"
  by (simp add: round_half_even_real_def)

lemma float32_of_int_exact:
  assumes "\<bar>n\<bar> < 2 ^ 24"
  shows "float32_of_real (of_int n) = Fin (of_int n)"
proof (cases "n = 0")
  case True
  then show ?thesis by (simp add: float32_of_real_def)
next
  case False
  define x :: real where "x = of_int n"
  have x1: "1 \<le> \<bar>x\<bar>" using False by (simp add: x_def)
  have x2: "\<bar>x\<bar> < 2 ^ 24" using assms unfolding x_def
    by (metis of_int_abs of_int_less_numeral_power_cancel_iff)
  define e where "e = \<lfloor>log 2 \<bar>x\<bar>\<rfloor>"
  have "0 \<le> log 2 \<bar>x\<bar>" using x1 by simp
  then have e0: "0 \<le> e" by (simp add: e_def)
  have "\<bar>x\<bar> < 2 powr 24" using x2 by simp
  then have "log 2 \<bar>x\<bar> < 24" using x1 by (subst log_less_iff) auto
  then have e23: "e \<le> 23" by (simp add: e_def floor_le_iff)
  define k where "k = nat (23 - e)"
  have ulp: "(2::real) powr of_int (e - 23) = 1 / 2 ^ k"
  proof -
    have "of_int (e - 23) = - real k" using e23 by (simp add: k_def)
    then have "(2::real) powr of_int (e - 23) = 2 powr (- real k)" by simp
    also have "\<dots> = 1 / 2 ^ k" by (simp add: powr_minus powr_realpow divide_inverse)
    finally show ?thesis .
  qed
  have q: "x / (1 / 2 ^ k) = of_int (n * 2 ^ k)" by (simp add: x_def)
  have y: "of_int (round_half_even_real (x / (1 / 2 ^ k))) * (1 / 2 ^ k) = x"
    unfolding q round_half_even_real_of_int by (simp add: x_def)
  have small: "\<not> 2 powr 128 \<le> \<bar>x\<bar>"
  proof -
    have "(2::real) ^ 24 \<le> 2 ^ 128" by (rule power_increasing) simp_all
    with x2 have "\<bar>x\<bar> < 2 ^ 128" by (rule less_le_trans)
    moreover have "(2::real) powr 128 = 2 ^ 128" by (rule powr_numeral) simp
    ultimately show ?thesis by (simp only: not_le)
  qed
  have mx: "max e (- 126) = e" using e0 by simp
  have x0: "x \<noteq> 0" using x1 by auto
  have "float32_of_real x = Fin x"
    unfolding float32_of_real_def Let_def e_def [symmetric] mx ulp y
    using x0 small by simp
  then show ?thesis by (simp add: x_def)
qed

lemma to_float32_numeral:
  "numeral k < (2::int) ^ 24 \<Longrightarrow> to_float32 (Fin (numeral k)) = Fin (numeral k)"
  using float32_of_int_exact [of "numeral k"] by (simp add: to_float32_def)

text \<open>An integer that needs 25 bits is rounded: the tie goes to the even neighbour.\<close>

lemma float32_of_real_rounds: "float32_of_real 16777217 = Fin 16777216"
proof -
  have e: "\<lfloor>log 2 \<bar>16777217 :: real\<bar>\<rfloor> = 24"
    by (subst floor_log_eq_powr_iff) (simp_all add: powr_numeral)
  have ulp: "(2::real) powr of_int (max 24 (- 126) - 23) = 2" by simp
  have r: "round_half_even_real (16777217 / 2) = 8388608"
  proof -
    have "\<lfloor>16777217 / 2 :: real\<rfloor> = 8388608" by (simp add: floor_eq_iff)
    then show ?thesis by (simp add: round_half_even_real_def Let_def)
  qed
  have small: "\<not> (2::real) powr 128 \<le> 16777216" by (simp add: powr_numeral)
  show ?thesis
    unfolding float32_of_real_def Let_def e ulp r using small by simp
qed

lemma to_float32_one: "to_float32 (Fin 1) = Fin 1"
  using float32_of_int_exact [of 1] by (simp add: to_float32_def)

lemma to_float32_zero: "to_float32 (Fin 0) = Fin 0"
  by (simp add: to_float32_def float32_of_real_def)

lemma to_float32_rounds: "to_float32 (Fin 16777217) = Fin 16777216"
  by (simp add: to_float32_def float32_of_real_rounds)

section \<open>Properties of the window builder\<close>

lemma create_sequences_loop_h1:
  assumes "\<And>i. i \<in> set idx \<Longrightarrow> i + L < length data"
    and "\<And>row. row \<in> set data \<Longrightarrow> length row = width"
    and "normalize_index tc width = Inr col"
  shows "create_sequences_loop data L tc 1 idx (X, y) =
           Inr (X @ map (\<lambda>i. take L (drop i data)) idx,
                y @ map (\<lambda>i. Scalar (data ! (i + L) ! col)) idx)"
  using assms(1)
proof (induction idx arbitrary: X y)
  case Nil
  show ?case by simp
next
  case (Cons i rest)
  have lt: "i + L < length data" using Cons.prems by simp
  then have "length (data ! (i + L)) = width" using assms(2) by simp
  then have "index_2d data (i + L) tc = Inr (data ! (i + L) ! col)"
    using lt assms(3) by (simp add: index_2d_def)
  then show ?case using Cons by simp
qed

text \<open>
  Claim C3.  For a rectangular matrix of \<open>N\<close> rows, sequence length \<open>L\<close> and horizon 1
  (with a target column inside the matrix, unless the matrix is undersized),
  \<open>create_sequences\<close> returns exactly \<open>max(0, N - L)\<close> (window, target) pairs; window
  \<open>i\<close> is rows \<open>[i, i + L)\<close> and its target is the target column of row \<open>i + L\<close>, so
  window 0's target is row \<open>L\<close>'s; an undersized matrix (\<open>N < L + 1\<close>) gives the empty
  result and no error.  Windows and targets are returned as single-precision tensors,
  so "is" and "equals" hold up to that conversion: each returned entry is the
  single-precision value of the matrix entry.
\<close>

theorem create_sequences_horizon_one:
  assumes "list_all (\<lambda>row. length row = width) data"
    and "length data \<le> L \<or> normalize_index tc width = Inr col"
  shows "\<exists>X y. create_sequences data L tc 1 = Inr (X, y) \<and>
           length X = nat (max 0 (int (length data) - int L)) \<and>
           length y = length X \<and>
           (\<forall>i < length X. X ! i = map (map to_float32) (take L (drop i data)) \<and>
                            length (X ! i) = L \<and>
                            (\<forall>j < L. X ! i ! j = map to_float32 (data ! (i + j))) \<and>
                            y ! i = Scalar (to_float32 (data ! (i + L) ! col))) \<and>
           (L < length data \<longrightarrow> y ! 0 = Scalar (to_float32 (data ! L ! col))) \<and>
           (length data < L + 1 \<longrightarrow> X = [] \<and> y = [])"
proof (cases "length data \<le> L")
  case True
  then have "nat (int (length data) - int L - int 1 + 1) = 0" by simp
  then have "create_sequences data L tc 1 = Inr ([], [])"
    by (simp add: create_sequences_def bind_result_def)
  then show ?thesis using True by simp
next
  case False
  with assms(2) have col: "normalize_index tc width = Inr col" by simp
  define n where "n = length data - L"
  have n: "nat (int (length data) - int L - int 1 + 1) = n" using False by (simp add: n_def)
  have rows: "\<And>row. row \<in> set data \<Longrightarrow> length row = width"
    using assms(1) by (simp add: list_all_iff)
  have loop: "create_sequences_loop data L tc 1 [0..<n] ([], []) =
          Inr ([] @ map (\<lambda>i. take L (drop i data)) [0..<n],
               [] @ map (\<lambda>i. Scalar (data ! (i + L) ! col)) [0..<n])"
    by (rule create_sequences_loop_h1 [OF _ rows col]) (auto simp: n_def)
  have "create_sequences data L tc 1 =
          Inr (map (\<lambda>i. map (map to_float32) (take L (drop i data))) [0..<n],
               map (\<lambda>i. Scalar (to_float32 (data ! (i + L) ! col))) [0..<n])"
    unfolding create_sequences_def n loop by (simp add: bind_result_def comp_def)
  moreover have "nat (max 0 (int (length data) - int L)) = n" using False by (simp add: n_def)
  moreover have "0 < n" using False by (simp add: n_def)
  ultimately show ?thesis using False by (auto simp: n_def)
qed

text \<open>
  Five rows, windows of length 2: three windows; the first is rows 0 and 1, and its
  target is row 2's first entry 16777217 as a single-precision number, 16777216.
\<close>

theorem create_sequences_horizon_one_witness:
  "list_all (\<lambda>row. length row = 2) [[Fin 1, Fin 10], [Fin 2, Fin 20], [Fin 16777217, Fin 30], [Fin 4, Fin 40], [Fin 5, Fin 50]] \<and>
   normalize_index 0 2 = Inr 0 \<and>
   (\<exists>X y. create_sequences [[Fin 1, Fin 10], [Fin 2, Fin 20], [Fin 16777217, Fin 30], [Fin 4, Fin 40], [Fin 5, Fin 50]] 2 0 1 = Inr (X, y) \<and>
          length X = 3 \<and> length y = 3 \<and>
          X ! 0 = [[Fin 1, Fin 10], [Fin 2, Fin 20]] \<and> y ! 0 = Scalar (Fin 16777216))"
proof -
  have h1: "list_all (\<lambda>row. length row = 2) [[Fin 1, Fin 10], [Fin 2, Fin 20], [Fin 16777217, Fin 30], [Fin 4, Fin 40], [Fin 5, Fin 50]]" by simp
  have h2: "normalize_index 0 2 = Inr 0" by (simp add: normalize_index_def)
  from create_sequences_horizon_one [OF h1 disjI2 [OF h2], of 2]
  obtain X y where r: "create_sequences [[Fin 1, Fin 10], [Fin 2, Fin 20], [Fin 16777217, Fin 30], [Fin 4, Fin 40], [Fin 5, Fin 50]] 2 0 1 = Inr (X, y)"
    and len: "length X = nat (max 0 (int (length [[Fin 1, Fin 10], [Fin 2, Fin 20], [Fin 16777217, Fin 30], [Fin 4, Fin 40], [Fin 5, Fin 50]]) - int 2))" "length y = length X"
    and win: "\<forall>i < length X. X ! i = map (map to_float32) (take 2 (drop i [[Fin 1, Fin 10], [Fin 2, Fin 20], [Fin 16777217, Fin 30], [Fin 4, Fin 40], [Fin 5, Fin 50]])) \<and>
                length (X ! i) = 2 \<and>
                (\<forall>j < 2. X ! i ! j = map to_float32 ([[Fin 1, Fin 10], [Fin 2, Fin 20], [Fin 16777217, Fin 30], [Fin 4, Fin 40], [Fin 5, Fin 50]] ! (i + j))) \<and>
                y ! i = Scalar (to_float32 ([[Fin 1, Fin 10], [Fin 2, Fin 20], [Fin 16777217, Fin 30], [Fin 4, Fin 40], [Fin 5, Fin 50]] ! (i + 2) ! 0))"
    by blast
  from len have l3: "length X = 3" "length y = 3" by simp_all
  then have "0 < length X" by simp
  with win have "X ! 0 = map (map to_float32) (take 2 (drop 0 [[Fin 1, Fin 10], [Fin 2, Fin 20], [Fin 16777217, Fin 30], [Fin 4, Fin 40], [Fin 5, Fin 50]]))"
    "y ! 0 = Scalar (to_float32 ([[Fin 1, Fin 10], [Fin 2, Fin 20], [Fin 16777217, Fin 30], [Fin 4, Fin 40], [Fin 5, Fin 50]] ! (0 + 2) ! 0))"
    by blast+
  then have "X ! 0 = [[Fin 1, Fin 10], [Fin 2, Fin 20]]" "y ! 0 = Scalar (Fin 16777216)"
    by (simp_all add: to_float32_numeral to_float32_one to_float32_rounds)
  with h1 h2 r l3 show ?thesis by blast
qed

section \<open>Properties of the scalers\<close>

lemma length_columns [simp]: "length (columns X) = ncols X"
  by (simp add: columns_def)

lemma Normalizer_cases:
  assumes "Normalizer m = Inr n0"
  obtains "m = ''standard''" "n0 = \<lparr>norm_method = ''standard'', scaler = new_scaler StandardScaler, is_fitted = False\<rparr>"
  | "m = ''minmax''" "n0 = \<lparr>norm_method = ''minmax'', scaler = new_scaler MinMaxScaler, is_fitted = False\<rparr>"
  | "m = ''robust''" "n0 = \<lparr>norm_method = ''robust'', scaler = new_scaler RobustScaler, is_fitted = False\<rparr>"
  using assms
  by (auto simp: Normalizer_def create_scaler_def bind_result_def split: if_splits)

lemma fit_standard_form:
  assumes "fit \<lparr>norm_method = ''standard'', scaler = new_scaler StandardScaler, is_fitted = False\<rparr> M = Inr n"
  shows "\<exists>mu v sc. length mu = ncols M \<and>
           n = \<lparr>norm_method = ''standard'',
                scaler = (new_scaler StandardScaler)
                  \<lparr>mean_attr := Some mu, var_attr := Some v, scale_attr := Some sc,
                   n_features_in_attr := Some (ncols M), n_samples_seen_attr := Some (length M)\<rparr>,
                is_fitted = True\<rparr>"
proof (cases "check_array M")
  case (Inl e)
  with assms show ?thesis by (simp add: fit_def sk_fit_def bind_result_def)
next
  case (Inr u)
  define mu where "mu = map nanmean (columns M)"
  define v where "v = map nanvar (columns M)"
  define sc where "sc = map (\<lambda>c. handle_zeros_in_scale (np_sqrt (nanvar c))) (columns M)"
  have "length mu = ncols M" by (simp add: mu_def)
  moreover have "n = \<lparr>norm_method = ''standard'',
                scaler = (new_scaler StandardScaler)
                  \<lparr>mean_attr := Some mu, var_attr := Some v, scale_attr := Some sc,
                   n_features_in_attr := Some (ncols M), n_samples_seen_attr := Some (length M)\<rparr>,
                is_fitted = True\<rparr>"
    using assms Inr
    by (simp add: fit_def sk_fit_def bind_result_def Let_def new_scaler_def mu_def v_def sc_def)
  ultimately show ?thesis by (intro exI conjI)
qed


lemma round_trip_standard_form:
  assumes "length mu = k"
    and "n = \<lparr>norm_method = ''standard'',
                scaler = (new_scaler StandardScaler)
                  \<lparr>mean_attr := Some mu, var_attr := Some v, scale_attr := Some sc,
                   n_features_in_attr := Some k, n_samples_seen_attr := Some rows\<rparr>,
                is_fitted = True\<rparr>"
  shows "\<exists>d' n'. save n path d = Inr d' \<and> load path d' = Inr n' \<and>
           transform n' X = transform n X \<and> inverse_transform n' X = inverse_transform n X"
proof -
  define n' where "n' = \<lparr>norm_method = ''standard'',
                scaler = (new_scaler StandardScaler)
                  \<lparr>mean_attr := Some mu, scale_attr := Some sc, n_features_in_attr := Some k\<rparr>,
                is_fitted = True\<rparr>"
  define doc where "doc = [(''method'', JString ''standard''), (''is_fitted'', JBool True),
                           (''mean'', JFloats mu), (''scale'', JFloats sc)]"
  have s: "save n path d = Inr (d(path \<mapsto> doc))"
    by (simp add: assms(2) doc_def save_def save_params_def attr_def bind_result_def new_scaler_def)
  have l: "load path (d(path \<mapsto> doc)) = Inr n'"
    by (simp add: doc_def n'_def assms(1) load_def load_params_def get_string_def get_floats_def
          Normalizer_def create_scaler_def bind_result_def new_scaler_def)
  have t: "transform n' X = transform n X"
    by (simp add: assms(2) n'_def transform_def sk_transform_def check_n_features_def attr_def
          bind_result_def new_scaler_def)
  have i: "inverse_transform n' X = inverse_transform n X"
    by (simp add: assms(2) n'_def inverse_transform_def sk_inverse_transform_def attr_def
          bind_result_def new_scaler_def)
  show ?thesis by (intro exI conjI, rule s, rule l, rule t, rule i)
qed


lemma fit_minmax_form:
  assumes "fit \<lparr>norm_method = ''minmax'', scaler = new_scaler MinMaxScaler, is_fitted = False\<rparr> M = Inr n"
  shows "\<exists>mn sc dmin dmax drange. length mn = ncols M \<and>
           n = \<lparr>norm_method = ''minmax'',
                scaler = (new_scaler MinMaxScaler)
                  \<lparr>min_attr := Some mn, scale_attr := Some sc, data_min_attr := Some dmin,
                   data_max_attr := Some dmax, data_range_attr := Some drange,
                   n_features_in_attr := Some (ncols M), n_samples_seen_attr := Some (length M)\<rparr>,
                is_fitted = True\<rparr>"
proof (cases "check_array M")
  case (Inl e)
  with assms show ?thesis by (simp add: fit_def sk_fit_def bind_result_def)
next
  case (Inr u)
  define dmin where "dmin = map nanmin (columns M)"
  define dmax where "dmax = map nanmax (columns M)"
  define drange where "drange = map2 (-) dmax dmin"
  define sc where "sc = map (\<lambda>r. Fin 1 / handle_zeros_in_scale r) drange"
  define mn where "mn = map2 (\<lambda>mn s. Fin 0 - mn * s) dmin sc"
  have "length mn = ncols M"
    by (simp add: mn_def sc_def drange_def dmin_def dmax_def)
  moreover have "n = \<lparr>norm_method = ''minmax'',
                scaler = (new_scaler MinMaxScaler)
                  \<lparr>min_attr := Some mn, scale_attr := Some sc, data_min_attr := Some dmin,
                   data_max_attr := Some dmax, data_range_attr := Some drange,
                   n_features_in_attr := Some (ncols M), n_samples_seen_attr := Some (length M)\<rparr>,
                is_fitted = True\<rparr>"
    using assms Inr
    by (simp add: fit_def sk_fit_def bind_result_def Let_def new_scaler_def
          mn_def sc_def drange_def dmin_def dmax_def)
  ultimately show ?thesis by (intro exI conjI)
qed

lemma round_trip_minmax_form:
  assumes "length mn = k"
    and "n = \<lparr>norm_method = ''minmax'',
                scaler = (new_scaler MinMaxScaler)
                  \<lparr>min_attr := Some mn, scale_attr := Some sc, data_min_attr := Some dmin,
                   data_max_attr := Some dmax, data_range_attr := Some drange,
                   n_features_in_attr := Some k, n_samples_seen_attr := Some rows\<rparr>,
                is_fitted = True\<rparr>"
  shows "\<exists>d' n'. save n path d = Inr d' \<and> load path d' = Inr n' \<and>
           transform n' X = transform n X \<and> inverse_transform n' X = inverse_transform n X"
proof -
  define n' where "n' = \<lparr>norm_method = ''minmax'',
                scaler = (new_scaler MinMaxScaler)
                  \<lparr>min_attr := Some mn, scale_attr := Some sc, data_min_attr := Some dmin,
                   data_max_attr := Some dmax, n_features_in_attr := Some k\<rparr>,
                is_fitted = True\<rparr>"
  define doc where "doc = [(''method'', JString ''minmax''), (''is_fitted'', JBool True),
                           (''min'', JFloats mn), (''scale'', JFloats sc),
                           (''data_min'', JFloats dmin), (''data_max'', JFloats dmax)]"
  have s: "save n path d = Inr (d(path \<mapsto> doc))"
    by (simp add: assms(2) doc_def save_def save_params_def attr_def bind_result_def new_scaler_def)
  have l: "load path (d(path \<mapsto> doc)) = Inr n'"
    by (simp add: doc_def n'_def assms(1) load_def load_params_def get_string_def get_floats_def
          Normalizer_def create_scaler_def bind_result_def new_scaler_def)
  have t: "transform n' X = transform n X"
    by (simp add: assms(2) n'_def transform_def sk_transform_def check_n_features_def attr_def
          bind_result_def new_scaler_def)
  have i: "inverse_transform n' X = inverse_transform n X"
    by (simp add: assms(2) n'_def inverse_transform_def sk_inverse_transform_def attr_def
          bind_result_def new_scaler_def)
  show ?thesis by (intro exI conjI, rule s, rule l, rule t, rule i)
qed

lemma fit_robust_form:
  assumes "fit \<lparr>norm_method = ''robust'', scaler = new_scaler RobustScaler, is_fitted = False\<rparr> M = Inr n"
  shows "\<exists>c sc. length c = ncols M \<and>
           n = \<lparr>norm_method = ''robust'',
                scaler = (new_scaler RobustScaler)
                  \<lparr>center_attr := Some c, scale_attr := Some sc,
                   n_features_in_attr := Some (ncols M)\<rparr>,
                is_fitted = True\<rparr>"
proof (cases "check_array M")
  case (Inl e)
  with assms show ?thesis by (simp add: fit_def sk_fit_def bind_result_def)
next
  case (Inr u)
  define c where "c = map nanmedian (columns M)"
  define sc where
    "sc = map (\<lambda>c. handle_zeros_in_scale (nanpercentile c 75 - nanpercentile c 25)) (columns M)"
  have "length c = ncols M" by (simp add: c_def)
  moreover have "n = \<lparr>norm_method = ''robust'',
                scaler = (new_scaler RobustScaler)
                  \<lparr>center_attr := Some c, scale_attr := Some sc,
                   n_features_in_attr := Some (ncols M)\<rparr>,
                is_fitted = True\<rparr>"
    using assms Inr
    by (simp add: fit_def sk_fit_def bind_result_def Let_def new_scaler_def c_def sc_def)
  ultimately show ?thesis by (intro exI conjI)
qed

lemma round_trip_robust_form:
  assumes "length c = k"
    and "n = \<lparr>norm_method = ''robust'',
                scaler = (new_scaler RobustScaler)
                  \<lparr>center_attr := Some c, scale_attr := Some sc, n_features_in_attr := Some k\<rparr>,
                is_fitted = True\<rparr>"
  shows "\<exists>d' n'. save n path d = Inr d' \<and> load path d' = Inr n' \<and>
           transform n' X = transform n X \<and> inverse_transform n' X = inverse_transform n X"
proof -
  define doc where "doc = [(''method'', JString ''robust''), (''is_fitted'', JBool True),
                           (''center'', JFloats c), (''scale'', JFloats sc)]"
  have s: "save n path d = Inr (d(path \<mapsto> doc))"
    by (simp add: assms(2) doc_def save_def save_params_def attr_def bind_result_def new_scaler_def)
  have l: "load path (d(path \<mapsto> doc)) = Inr n"
    by (simp add: doc_def assms load_def load_params_def get_string_def get_floats_def
          Normalizer_def create_scaler_def bind_result_def new_scaler_def)
  show ?thesis by (intro exI conjI, rule s, rule l, rule refl, rule refl)
qed

text \<open>
  Claim C7.  For every scaler method, a \<open>Normalizer\<close> fitted on a matrix \<open>M\<close>, saved
  and loaded into a fresh instance gives the same \<open>transform\<close> and
  \<open>inverse_transform\<close> outcome as the original on every input \<open>X\<close> (the same array, or
  the same error for an input the scaler rejects).  The loaded instance is not the
  original: the attributes \<open>save\<close> leaves out (\<open>var_\<close>, \<open>data_range_\<close>,
  \<open>n_samples_seen_\<close>) stay unset, and \<open>n_features_in_\<close> is recomputed from the length of
  a stored vector.
\<close>

theorem save_load_round_trip:
  assumes "Normalizer m = Inr n0" and "fit n0 M = Inr n"
  shows "\<exists>d' n'. save n path d = Inr d' \<and> load path d' = Inr n' \<and>
           transform n' X = transform n X \<and> inverse_transform n' X = inverse_transform n X"
  using assms(1)
proof (cases rule: Normalizer_cases)
  case 1
  from assms(2) have "fit \<lparr>norm_method = ''standard'', scaler = new_scaler StandardScaler, is_fitted = False\<rparr> M = Inr n"
    by (simp only: 1(2))
  from fit_standard_form [OF this] obtain mu v sc where a: "length mu = ncols M"
    and b: "n = \<lparr>norm_method = ''standard'',
                scaler = (new_scaler StandardScaler)
                  \<lparr>mean_attr := Some mu, var_attr := Some v, scale_attr := Some sc,
                   n_features_in_attr := Some (ncols M), n_samples_seen_attr := Some (length M)\<rparr>,
                is_fitted = True\<rparr>"
    by (elim exE conjE)
  show ?thesis by (rule round_trip_standard_form [OF a b])
next
  case 2
  from assms(2) have "fit \<lparr>norm_method = ''minmax'', scaler = new_scaler MinMaxScaler, is_fitted = False\<rparr> M = Inr n"
    by (simp only: 2(2))
  from fit_minmax_form [OF this] obtain mn sc dmin dmax drange where a: "length mn = ncols M"
    and b: "n = \<lparr>norm_method = ''minmax'',
                scaler = (new_scaler MinMaxScaler)
                  \<lparr>min_attr := Some mn, scale_attr := Some sc, data_min_attr := Some dmin,
                   data_max_attr := Some dmax, data_range_attr := Some drange,
                   n_features_in_attr := Some (ncols M), n_samples_seen_attr := Some (length M)\<rparr>,
                is_fitted = True\<rparr>"
    by (elim exE conjE)
  show ?thesis by (rule round_trip_minmax_form [OF a b])
next
  case 3
  from assms(2) have "fit \<lparr>norm_method = ''robust'', scaler = new_scaler RobustScaler, is_fitted = False\<rparr> M = Inr n"
    by (simp only: 3(2))
  from fit_robust_form [OF this] obtain c sc where a: "length c = ncols M"
    and b: "n = \<lparr>norm_method = ''robust'',
                scaler = (new_scaler RobustScaler)
                  \<lparr>center_attr := Some c, scale_attr := Some sc,
                   n_features_in_attr := Some (ncols M)\<rparr>,
                is_fitted = True\<rparr>"
    by (elim exE conjE)
  show ?thesis by (rule round_trip_robust_form [OF a b])
qed


text \<open>A min-max scaler fitted on the column (1, 3) maps 2 to 1/2 before and after.\<close>

theorem save_load_round_trip_witness:
  "\<exists>n0 n. Normalizer ''minmax'' = Inr n0 \<and> fit n0 [[Fin 1], [Fin 3]] = Inr n \<and>
     (\<exists>d' n'. save n ''normalizer_X.json'' Map.empty = Inr d' \<and>
              load ''normalizer_X.json'' d' = Inr n' \<and>
              transform n' [[Fin 2]] = transform n [[Fin 2]] \<and>
              inverse_transform n' [[Fin 2]] = inverse_transform n [[Fin 2]]) \<and>
     transform n [[Fin 2]] = Inr [[Fin (1 / 2)]]"
proof -
  define n0 where "n0 = \<lparr>norm_method = ''minmax'', scaler = new_scaler MinMaxScaler, is_fitted = False\<rparr>"
  define n where "n = \<lparr>norm_method = ''minmax'',
                scaler = (new_scaler MinMaxScaler)
                  \<lparr>min_attr := Some [Fin (- 1 / 2)], scale_attr := Some [Fin (1 / 2)],
                   data_min_attr := Some [Fin 1], data_max_attr := Some [Fin 3],
                   data_range_attr := Some [Fin 2],
                   n_features_in_attr := Some 1, n_samples_seen_attr := Some 2\<rparr>,
                is_fitted = True\<rparr>"
  have a: "Normalizer ''minmax'' = Inr n0"
    by (simp add: n0_def Normalizer_def create_scaler_def bind_result_def)
  have b: "fit n0 [[Fin 1], [Fin 3]] = Inr n"
    by (simp add: n0_def n_def fit_def sk_fit_def check_array_def ncols_def columns_def column_def
          bind_result_def Let_def new_scaler_def nanmin_def nanmax_def dropnan_def fmin_def fmax_def
          handle_zeros_in_scale_def minus_pyfloat_def)
  have c: "transform n [[Fin 2]] = Inr [[Fin (1 / 2)]]"
    by (simp add: n_def transform_def sk_transform_def check_array_def ncols_def
          check_n_features_def attr_def broadcast_rows_def bind_result_def new_scaler_def)
  from save_load_round_trip [OF a b, of "''normalizer_X.json''" Map.empty "[[Fin 2]]"] a b c
  show ?thesis by blast
qed

section \<open>Properties of the training data preparation\<close>

lemma bit_length_0 [simp]: "bit_length 0 = 0"
  by (simp add: bit_length.simps)

lemma bit_length_1 [simp]: "bit_length 1 = 1" "bit_length (Suc 0) = 1"
  by (simp_all add: bit_length.simps [of 1] bit_length.simps [of "Suc 0"])

lemma bit_length_Bit0 [simp]: "bit_length (numeral (Num.Bit0 n)) = Suc (bit_length (numeral n))"
  by (subst bit_length.simps) simp

lemma bit_length_Bit1 [simp]: "bit_length (numeral (Num.Bit1 n)) = Suc (bit_length (numeral n))"
  by (subst bit_length.simps) simp

lemma train_size_of_10: "train_size_of 10 = 7"
  by (simp add: train_size_of_def int_of_double_product_def round_half_even_def Let_def)

lemma val_size_of_10: "val_size_of 10 = 1"
  by (simp add: val_size_of_def int_of_double_product_def round_half_even_def Let_def)

lemma train_size_of_90: "train_size_of 90 = 62"
  by (simp add: train_size_of_def int_of_double_product_def round_half_even_def Let_def)


lemma fit_transform_fit: "fit_transform n X = Inr (n', Xt) \<Longrightarrow> fit n X = Inr n'"
  by (cases "fit n X"; cases "transform (projr (fit n X)) X")
     (simp_all add: fit_transform_def bind_result_def)

lemma prepare_data_scalers:
  assumes "prepare_data m L X y = Inr r"
  shows "\<exists>xn. Normalizer m = Inr xn \<and> fit xn X = Inr (X_normalizer r) \<and>
              fit xn (map (\<lambda>v. [v]) y) = Inr (y_normalizer r)"
proof (cases "Normalizer m")
  case (Inl e)
  with assms show ?thesis by (simp add: prepare_data_def bind_result_def)
next
  case xn: (Inr xn)
  show ?thesis
  proof (cases "fit_transform xn X")
    case (Inl e)
    with assms xn show ?thesis by (simp add: prepare_data_def bind_result_def)
  next
    case fx: (Inr px)
    obtain Xn Xt where px: "px = (Xn, Xt)" by (cases px)
    show ?thesis
    proof (cases "fit_transform xn (map (\<lambda>v. [v]) y)")
      case (Inl e)
      with assms xn fx px show ?thesis by (simp add: prepare_data_def bind_result_def)
    next
      case fy: (Inr py)
      obtain Yn Yt where py: "py = (Yn, Yt)" by (cases py)
      show ?thesis
      proof (cases "create_sequences Xt L 0 1")
        case (Inl e)
        with assms xn fx px fy py show ?thesis by (simp add: prepare_data_def bind_result_def)
      next
        case cs: (Inr ps)
        obtain seqs tg where ps: "ps = (seqs, tg)" by (cases ps)
        from assms xn fx px fy py cs ps
        have "X_normalizer r = Xn" "y_normalizer r = Yn"
          by (auto simp: prepare_data_def bind_result_def Let_def)
        moreover have "fit xn X = Inr Xn" using fx px by (simp add: fit_transform_fit)
        moreover have "fit xn (map (\<lambda>v. [v]) y) = Inr Yn" using fy py by (simp add: fit_transform_fit)
        ultimately show ?thesis using xn by simp
      qed
    qed
  qed
qed


lemma prepare_eval_1:
  "map_sum id (\<lambda>r. (scale_attr (scaler (X_normalizer r)), scale_attr (scaler (y_normalizer r))))
     (prepare_data ''minmax'' 10
        [[Fin 1], [Fin 2], [Fin 3], [Fin 4], [Fin 5], [Fin 6], [Fin 7], [Fin 8], [Fin 9], [Fin 10], [Fin 11], [Fin 12], [Fin 13], [Fin 14], [Fin 15], [Fin 16], [Fin 17], [Fin 18], [Fin 19], [Fin 20]]
        [Fin 101, Fin 102, Fin 103, Fin 104, Fin 105, Fin 106, Fin 107, Fin 108, Fin 109, Fin 110, Fin 111, Fin 112, Fin 113, Fin 114, Fin 115, Fin 116, Fin 117, Fin 118, Fin 119, Fin 120])
   = Inr (Some [Fin (1 / 19)], Some [Fin (1 / 19)])"
  by (simp add: prepare_data_def bind_result_def Let_def Normalizer_def create_scaler_def
        new_scaler_def fit_transform_def fit_def transform_def sk_fit_def sk_transform_def
        check_array_def check_n_features_def attr_def ncols_def columns_def column_def
        broadcast_rows_def nanmin_def nanmax_def dropnan_def fmin_def fmax_def
        handle_zeros_in_scale_def minus_pyfloat_def
        create_sequences_def index_2d_def normalize_index_def
        train_size_of_10 val_size_of_10 upt_conv_Cons)


lemma prepare_eval_2:
  "map_sum id (\<lambda>r. (scale_attr (scaler (X_normalizer r)), scale_attr (scaler (y_normalizer r))))
     (prepare_data ''minmax'' 10
        [[Fin 1], [Fin 2], [Fin 3], [Fin 4], [Fin 5], [Fin 6], [Fin 7], [Fin 8], [Fin 9], [Fin 10], [Fin 11], [Fin 12], [Fin 13], [Fin 14], [Fin 15], [Fin 16], [Fin 17], [Fin 18], [Fin 19], [Fin 100]]
        [Fin 101, Fin 102, Fin 103, Fin 104, Fin 105, Fin 106, Fin 107, Fin 108, Fin 109, Fin 110, Fin 111, Fin 112, Fin 113, Fin 114, Fin 115, Fin 116, Fin 117, Fin 118, Fin 119, Fin 500])
   = Inr (Some [Fin (1 / 99)], Some [Fin (1 / 399)])"
  by (simp add: prepare_data_def bind_result_def Let_def Normalizer_def create_scaler_def
        new_scaler_def fit_transform_def fit_def transform_def sk_fit_def sk_transform_def
        check_array_def check_n_features_def attr_def ncols_def columns_def column_def
        broadcast_rows_def nanmin_def nanmax_def dropnan_def fmin_def fmax_def
        handle_zeros_in_scale_def minus_pyfloat_def
        create_sequences_def index_2d_def normalize_index_def
        train_size_of_10 val_size_of_10 upt_conv_Cons)

text \<open>
  Claim C2 as stated fails.  Two datasets of 20 rows (sequence length 10, so 10 windows,
  7 of them training) that agree on the 17 rows feeding the training partition and
  differ in the last row only (a test-partition target) get different scaler
  parameters, for the features and for the target.
\<close>

theorem scalers_depend_on_test_rows:
  "training_rows 10
     [[Fin 1], [Fin 2], [Fin 3], [Fin 4], [Fin 5], [Fin 6], [Fin 7], [Fin 8], [Fin 9], [Fin 10], [Fin 11], [Fin 12], [Fin 13], [Fin 14], [Fin 15], [Fin 16], [Fin 17], [Fin 18], [Fin 19], [Fin 20]]
     [Fin 101, Fin 102, Fin 103, Fin 104, Fin 105, Fin 106, Fin 107, Fin 108, Fin 109, Fin 110, Fin 111, Fin 112, Fin 113, Fin 114, Fin 115, Fin 116, Fin 117, Fin 118, Fin 119, Fin 120]
   = training_rows 10
     [[Fin 1], [Fin 2], [Fin 3], [Fin 4], [Fin 5], [Fin 6], [Fin 7], [Fin 8], [Fin 9], [Fin 10], [Fin 11], [Fin 12], [Fin 13], [Fin 14], [Fin 15], [Fin 16], [Fin 17], [Fin 18], [Fin 19], [Fin 100]]
     [Fin 101, Fin 102, Fin 103, Fin 104, Fin 105, Fin 106, Fin 107, Fin 108, Fin 109, Fin 110, Fin 111, Fin 112, Fin 113, Fin 114, Fin 115, Fin 116, Fin 117, Fin 118, Fin 119, Fin 500] \<and>
   map_sum id (\<lambda>r. (scale_attr (scaler (X_normalizer r)), scale_attr (scaler (y_normalizer r))))
     (prepare_data ''minmax'' 10
        [[Fin 1], [Fin 2], [Fin 3], [Fin 4], [Fin 5], [Fin 6], [Fin 7], [Fin 8], [Fin 9], [Fin 10], [Fin 11], [Fin 12], [Fin 13], [Fin 14], [Fin 15], [Fin 16], [Fin 17], [Fin 18], [Fin 19], [Fin 20]]
        [Fin 101, Fin 102, Fin 103, Fin 104, Fin 105, Fin 106, Fin 107, Fin 108, Fin 109, Fin 110, Fin 111, Fin 112, Fin 113, Fin 114, Fin 115, Fin 116, Fin 117, Fin 118, Fin 119, Fin 120])
   = Inr (Some [Fin (1 / 19)], Some [Fin (1 / 19)]) \<and>
   map_sum id (\<lambda>r. (scale_attr (scaler (X_normalizer r)), scale_attr (scaler (y_normalizer r))))
     (prepare_data ''minmax'' 10
        [[Fin 1], [Fin 2], [Fin 3], [Fin 4], [Fin 5], [Fin 6], [Fin 7], [Fin 8], [Fin 9], [Fin 10], [Fin 11], [Fin 12], [Fin 13], [Fin 14], [Fin 15], [Fin 16], [Fin 17], [Fin 18], [Fin 19], [Fin 100]]
        [Fin 101, Fin 102, Fin 103, Fin 104, Fin 105, Fin 106, Fin 107, Fin 108, Fin 109, Fin 110, Fin 111, Fin 112, Fin 113, Fin 114, Fin 115, Fin 116, Fin 117, Fin 118, Fin 119, Fin 500])
   = Inr (Some [Fin (1 / 99)], Some [Fin (1 / 399)])"
proof -
  have "training_rows 10
     [[Fin 1], [Fin 2], [Fin 3], [Fin 4], [Fin 5], [Fin 6], [Fin 7], [Fin 8], [Fin 9], [Fin 10], [Fin 11], [Fin 12], [Fin 13], [Fin 14], [Fin 15], [Fin 16], [Fin 17], [Fin 18], [Fin 19], [Fin 20]]
     [Fin 101, Fin 102, Fin 103, Fin 104, Fin 105, Fin 106, Fin 107, Fin 108, Fin 109, Fin 110, Fin 111, Fin 112, Fin 113, Fin 114, Fin 115, Fin 116, Fin 117, Fin 118, Fin 119, Fin 120]
   = training_rows 10
     [[Fin 1], [Fin 2], [Fin 3], [Fin 4], [Fin 5], [Fin 6], [Fin 7], [Fin 8], [Fin 9], [Fin 10], [Fin 11], [Fin 12], [Fin 13], [Fin 14], [Fin 15], [Fin 16], [Fin 17], [Fin 18], [Fin 19], [Fin 100]]
     [Fin 101, Fin 102, Fin 103, Fin 104, Fin 105, Fin 106, Fin 107, Fin 108, Fin 109, Fin 110, Fin 111, Fin 112, Fin 113, Fin 114, Fin 115, Fin 116, Fin 117, Fin 118, Fin 119, Fin 500]"
    by (simp add: training_rows_def train_size_of_10)
  with prepare_eval_1 prepare_eval_2 show ?thesis by (intro conjI)
qed

text \<open>
  Claim C2, amended.  Whenever the preparation succeeds, the feature scaler is the result
  of \<open>fit\<close> on the whole feature matrix and the target scaler the result of \<open>fit\<close> on
  the whole close column, all rows of the later validation and test partitions
  included; the parameters therefore do not depend on where the split falls (any
  sequence length gives the same scalers).
\<close>

theorem scalers_fitted_on_all_rows:
  assumes "prepare_data m L X y = Inr r"
  shows "\<exists>xn. Normalizer m = Inr xn \<and> fit xn X = Inr (X_normalizer r) \<and>
              fit xn (map (\<lambda>v. [v]) y) = Inr (y_normalizer r) \<and>
              (\<forall>L' r'. prepare_data m L' X y = Inr r' \<longrightarrow>
                 X_normalizer r' = X_normalizer r \<and> y_normalizer r' = y_normalizer r)"
proof -
  from prepare_data_scalers [OF assms] obtain xn where xn: "Normalizer m = Inr xn"
    "fit xn X = Inr (X_normalizer r)" "fit xn (map (\<lambda>v. [v]) y) = Inr (y_normalizer r)"
    by blast
  have "X_normalizer r' = X_normalizer r \<and> y_normalizer r' = y_normalizer r"
    if "prepare_data m L' X y = Inr r'" for L' r'
    using prepare_data_scalers [OF that] xn by auto
  with xn show ?thesis by blast
qed

text \<open>The amended statement at the second dataset of the counterexample.\<close>

theorem scalers_fitted_on_all_rows_witness:
  "\<exists>r. prepare_data ''minmax'' 10
        [[Fin 1], [Fin 2], [Fin 3], [Fin 4], [Fin 5], [Fin 6], [Fin 7], [Fin 8], [Fin 9], [Fin 10], [Fin 11], [Fin 12], [Fin 13], [Fin 14], [Fin 15], [Fin 16], [Fin 17], [Fin 18], [Fin 19], [Fin 100]]
        [Fin 101, Fin 102, Fin 103, Fin 104, Fin 105, Fin 106, Fin 107, Fin 108, Fin 109, Fin 110, Fin 111, Fin 112, Fin 113, Fin 114, Fin 115, Fin 116, Fin 117, Fin 118, Fin 119, Fin 500] = Inr r \<and>
     (\<exists>xn. Normalizer ''minmax'' = Inr xn \<and>
        fit xn [[Fin 1], [Fin 2], [Fin 3], [Fin 4], [Fin 5], [Fin 6], [Fin 7], [Fin 8], [Fin 9], [Fin 10], [Fin 11], [Fin 12], [Fin 13], [Fin 14], [Fin 15], [Fin 16], [Fin 17], [Fin 18], [Fin 19], [Fin 100]] = Inr (X_normalizer r) \<and>
        fit xn (map (\<lambda>v. [v]) [Fin 101, Fin 102, Fin 103, Fin 104, Fin 105, Fin 106, Fin 107, Fin 108, Fin 109, Fin 110, Fin 111, Fin 112, Fin 113, Fin 114, Fin 115, Fin 116, Fin 117, Fin 118, Fin 119, Fin 500]) = Inr (y_normalizer r)) \<and>
     scale_attr (scaler (X_normalizer r)) = Some [Fin (1 / 99)]"
proof -
  obtain r where r: "prepare_data ''minmax'' 10
        [[Fin 1], [Fin 2], [Fin 3], [Fin 4], [Fin 5], [Fin 6], [Fin 7], [Fin 8], [Fin 9], [Fin 10], [Fin 11], [Fin 12], [Fin 13], [Fin 14], [Fin 15], [Fin 16], [Fin 17], [Fin 18], [Fin 19], [Fin 100]]
        [Fin 101, Fin 102, Fin 103, Fin 104, Fin 105, Fin 106, Fin 107, Fin 108, Fin 109, Fin 110, Fin 111, Fin 112, Fin 113, Fin 114, Fin 115, Fin 116, Fin 117, Fin 118, Fin 119, Fin 500] = Inr r"
    using prepare_eval_2
    by (cases "prepare_data ''minmax'' 10
        [[Fin 1], [Fin 2], [Fin 3], [Fin 4], [Fin 5], [Fin 6], [Fin 7], [Fin 8], [Fin 9], [Fin 10], [Fin 11], [Fin 12], [Fin 13], [Fin 14], [Fin 15], [Fin 16], [Fin 17], [Fin 18], [Fin 19], [Fin 100]]
        [Fin 101, Fin 102, Fin 103, Fin 104, Fin 105, Fin 106, Fin 107, Fin 108, Fin 109, Fin 110, Fin 111, Fin 112, Fin 113, Fin 114, Fin 115, Fin 116, Fin 117, Fin 118, Fin 119, Fin 500]") simp_all
  from prepare_eval_2 have "scale_attr (scaler (X_normalizer r)) = Some [Fin (1 / 99)]"
    unfolding r by simp
  with scalers_fitted_on_all_rows [OF r] r show ?thesis by blast
qed

section \<open>Properties of the training loop\<close>

lemma copy_params_alias:
  assumes "distinct (map fst sd)" and "set mdl \<subseteq> set sd"
  shows "copy_params mdl sd h = h"
  using assms(2)
proof (induction mdl arbitrary: h)
  case Nil
  show ?case by simp
next
  case (Cons p mdl)
  obtain name a where p: "p = (name, a)" by (cases p)
  from Cons.prems p have "(name, a) \<in> set sd" by simp
  with assms(1) have "map_of sd name = Some a" by simp
  moreover have "h(a := h a) = h" by (rule fun_upd_triv)
  ultimately show ?case using Cons p by simp
qed

lemma load_state_dict_alias:
  assumes "distinct (map fst mdl)"
  shows "load_state_dict mdl (dict_copy (module_state_dict mdl)) h = Inr h"
  using assms by (simp add: load_state_dict_def dict_copy_def module_state_dict_def copy_params_alias)

lemma train_batches_model:
  "train_batches B bs self acc = (self', r) \<Longrightarrow>
     model self' = model self \<and> best_model_state self' = best_model_state self"
proof (induction bs arbitrary: self acc)
  case Nil
  then show ?case by (cases acc) auto
next
  case (Cons b bs)
  obtain t n where acc: "acc = (t, n)" by (cases acc)
  obtain opt' params' loss where st:
    "train_step B (optimizer self) (read_params (model self) (heap self)) b = (opt', params', loss)"
    by (cases "train_step B (optimizer self) (read_params (model self) (heap self)) b")
  from Cons.prems Cons.IH [of "self\<lparr>heap := write_params (model self) params' (heap self), optimizer := opt'\<rparr>"
      "(t + loss, n + 1)"]
  show ?case by (simp add: acc st)
qed

lemma epoch_body_aliases:
  assumes "epoch_body B trl vl ck epoch self = Inr self'" and "snapshot_aliases self"
  shows "model self' = model self \<and> snapshot_aliases self'"
proof -
  obtain self1 total n where tb: "train_batches B (trl epoch) self (Fin 0, 0) = (self1, total, n)"
    by (cases "train_batches B (trl epoch) self (Fin 0, 0)") auto
  from train_batches_model [OF tb]
  have m1: "model self1 = model self" "best_model_state self1 = best_model_state self" by simp_all
  from assms(1) tb obtain train_loss where tl: "py_truediv total n = Inr train_loss"
    by (cases "py_truediv total n") (simp_all add: epoch_body_def train_epoch_def bind_result_def)
  define self2 where "self2 = self1\<lparr>train_losses := train_losses self1 @ [train_loss]\<rparr>"
  from assms(1) tb tl obtain val_loss where vl: "validate B vl self2 = Inr val_loss"
    by (cases "validate B vl self2")
       (simp_all add: epoch_body_def train_epoch_def bind_result_def Let_def self2_def)
  show ?thesis
    using assms tb tl vl m1
    by (auto simp: epoch_body_def train_epoch_def bind_result_def Let_def self2_def
          save_checkpoint_def snapshot_aliases_def dict_copy_def module_state_dict_def
        split: if_splits option.splits)
qed

lemma train_loop_aliases:
  assumes "train_loop B trl vl pat ck es self = Inr self'" and "snapshot_aliases self"
  shows "model self' = model self \<and> snapshot_aliases self'"
  using assms
proof (induction es arbitrary: self)
  case Nil
  then show ?case by simp
next
  case (Cons e es)
  from Cons.prems(1) obtain self1 where eb: "epoch_body B trl vl ck e self = Inr self1"
    by (cases "epoch_body B trl vl ck e self") (simp_all add: bind_result_def)
  from epoch_body_aliases [OF eb Cons.prems(2)]
  have m1: "model self1 = model self" "snapshot_aliases self1" by simp_all
  show ?case
  proof (cases "pat \<le> int (epochs_without_improvement self1)")
    case True
    with Cons.prems(1) eb have "self' = self1" by (simp add: bind_result_def)
    with m1 show ?thesis by simp
  next
    case False
    with Cons.prems(1) eb have "train_loop B trl vl pat ck es self1 = Inr self'"
      by (simp add: bind_result_def)
    from Cons.IH [OF this m1(2)] m1(1) show ?thesis by simp
  qed
qed

text \<open>
  In general: after the loop the restore changes nothing, whatever the losses were.
\<close>

lemma train_restores_nothing:
  assumes "train B trl vl epochs pat ck self = Inr (hist, self')"
    and "snapshot_aliases self" and "distinct (map fst (model self))"
  shows "\<exists>self1. train_loop B trl vl pat ck [0 ..< nat epochs] self = Inr self1 \<and>
           self' = self1 \<and> heap self' = heap self1"
proof -
  from assms(1) obtain self1 where lp: "train_loop B trl vl pat ck [0 ..< nat epochs] self = Inr self1"
    by (cases "train_loop B trl vl pat ck [0 ..< nat epochs] self")
       (simp_all add: train_def bind_result_def)
  from train_loop_aliases [OF lp assms(2)]
  have m1: "model self1 = model self" "snapshot_aliases self1" by simp_all
  have restore: "restore_best self1 = Inr self1"
  proof (cases "best_model_state self1")
    case None
    then show ?thesis by (simp add: restore_best_def)
  next
    case (Some best)
    with m1(2) have best: "best = model self1" by (simp add: snapshot_aliases_def)
    have "load_state_dict (model self1) best (heap self1) = Inr (heap self1)"
      using load_state_dict_alias [of "model self1" "heap self1"] assms(3) m1(1)
      by (simp add: best dict_copy_def module_state_dict_def)
    then show ?thesis using Some by (simp add: restore_best_def bind_result_def)
  qed
  from assms(1) have "self' = self1"
    by (simp add: train_def lp restore bind_result_def)
  with lp show ?thesis by simp
qed


text \<open>
  Claim C1 at a concrete run.  One parameter tensor, each epoch's optimisation adds 1 to
  it, and the validation loss is the parameter's value: the loss improves at epoch 0
  (value 1) and worsens afterwards.  With patience 2 training stops after two further
  epochs, three in all, as claimed.  The checkpoint written at epoch 0 holds the value 1,
  the snapshot the claim speaks of; but the module ends with the value 3 of the last
  epoch, because \<open>best_model_state\<close> holds the module's own tensors and the restore
  copies them onto themselves.
\<close>

theorem train_restores_last_epoch:
  "map_sum id
     (\<lambda>(h, self). (epochs_run h, history_val_losses h, history_best_val_loss h,
                   read_params (model self) (heap self),
                   torch_files self ''models/BTCUSDT/best_model.pt''))
     (train
        \<lparr>train_step = (\<lambda>opt ws b. (opt, map (\<lambda>w. w + 1) ws, Fin 1)),
          batch_loss = (\<lambda>ws b. Fin (real_of_int (hd ws))),
          scheduler_step = (\<lambda>opt v. opt),
          test_metrics = (\<lambda>ws bs. Inr [])\<rparr>
        (\<lambda>epoch. [[([[Fin 0]], Fin 0)]]) [[([[Fin 0]], Fin 0)]] 100 2 (Some ''models/BTCUSDT'')
        (Trainer [(''fc.weight'', 0)] (\<lambda>a. 0 :: int) () Map.empty))
   = Inr (3, [Fin 1, Fin 2, Fin 3], Fin 1, [3],
          Some (CheckpointFile [(''fc.weight'', 1)] () [Fin 1] [Fin 1] (Fin 1)))"
  by (simp add: train_def Trainer_def bind_result_def epoch_body_def train_epoch_def validate_def
        py_truediv_def read_params_def save_checkpoint_def serialize_def module_state_dict_def
        dict_copy_def restore_best_def load_state_dict_def Let_def upt_conv_Cons)

section \<open>Non-finite losses (training/trainer.py, api/training.py)\<close>


















end
